theory Spec2Isabelle
  imports Main "HOL-Library.AList"
begin

section \<open>Data model\<close>

text \<open>
  The repository holds three implementations of the same whitelist service:
  \<^item> \<^verbatim>\<open>api/mac-auth.js\<close> (called the basic variant below): a \<^verbatim>\<open>Map\<close> kept in a global,
    reloaded from two files at every request;
  \<^item> \<^verbatim>\<open>api/mac-auth-enhanced.js\<close> (the enhanced variant): the same handlers over
    \<^verbatim>\<open>memoryStore\<close>, loaded once from three files;
  \<^item> \<^verbatim>\<open>mac-database.js\<close> (class \<^verbatim>\<open>MACDatabase\<close>): a read-modify-write store over one file.

  A timestamp is the number of milliseconds of a \<^verbatim>\<open>Date\<close>; the ISO string the code stores
  and the number \<^verbatim>\<open>new Date(s).getTime()\<close> reads back are the same value. A property
  that may be \<^verbatim>\<open>null\<close>, \<^verbatim>\<open>undefined\<close> or missing is an option.
\<close>

type_synonym timestamp = int

record device =
  hostname :: "string option"
  username :: "string option"
  platform :: "string option"
  localIP :: "string option"
  publicIP :: "string option"

text \<open>The \<^verbatim>\<open>deviceInfo\<close> of a request: the five properties the code copies, and the rest.\<close>

record deviceInfo = device +
  otherProperties :: "(string \<times> string) list"

record entry =
  macAddress :: string
  description :: string
  accessType :: "string option"
  addedAt :: timestamp
  updatedAt :: "timestamp option"
  lastSeen :: "timestamp option"
  accessCount :: "int option"
  lastDevice :: "device option"

record stats =
  total :: int
  activeLast24h :: int
  activeLast7d :: int
  neverUsed :: int
  totalAccesses :: int

subsection \<open>Strings and JavaScript truthiness\<close>

text \<open>
  \<^verbatim>\<open>toLowerCase\<close> on the ASCII letters; addresses are ASCII
  (\<^verbatim>\<open>^([0-9A-Fa-f]{2}[:-]){5}([0-9A-Fa-f]{2})$\<close>).
\<close>

definition lower_char :: "char \<Rightarrow> char" where
  "lower_char c =
     (case map_of (zip ''ABCDEFGHIJKLMNOPQRSTUVWXYZ'' ''abcdefghijklmnopqrstuvwxyz'') c of
        Some l \<Rightarrow> l
      | None \<Rightarrow> c)"

definition toLowerCase :: "string \<Rightarrow> string" where
  "toLowerCase s = map lower_char s"

text \<open>\<^verbatim>\<open>!s\<close> for a string-valued property: missing, \<^verbatim>\<open>null\<close> and \<^verbatim>\<open>''\<close> are falsy.\<close>

definition falsy :: "string option \<Rightarrow> bool" where
  "falsy s = (case s of None \<Rightarrow> True | Some x \<Rightarrow> x = [])"

text \<open>\<^verbatim>\<open>s || dflt\<close> for a string-valued property.\<close>

definition or_else :: "string option \<Rightarrow> string \<Rightarrow> string" where
  "or_else s dflt = (case s of None \<Rightarrow> dflt | Some x \<Rightarrow> if x = [] then dflt else x)"

text \<open>\<^verbatim>\<open>n || 0\<close> for a number-valued property.\<close>

definition or_zero :: "int option \<Rightarrow> int" where
  "or_zero n = (case n of None \<Rightarrow> 0 | Some x \<Rightarrow> x)"

definition validAccessTypes :: "string list" where
  "validAccessTypes = [''trial'', ''unlimited'', ''admin'']"

text \<open>\<^verbatim>\<open>validAccessTypes.includes(accessType)\<close>: strict equality with one of the strings.\<close>

definition includes_val :: "string list \<Rightarrow> string option \<Rightarrow> bool" where
  "includes_val xs v = (case v of None \<Rightarrow> False | Some s \<Rightarrow> s \<in> set xs)"

subsection \<open>The Entry Store\<close>

text \<open>
  A JavaScript \<^verbatim>\<open>Map\<close> (and the key order of an object) is an association list in
  insertion order: \<^verbatim>\<open>get\<close> is \<^const>\<open>map_of\<close>, \<^verbatim>\<open>set\<close> is \<^const>\<open>AList.update\<close> (in
  place for a key that is there, at the end for a new one), \<^verbatim>\<open>delete\<close> is
  \<^const>\<open>AList.delete\<close>, \<^verbatim>\<open>values()\<close> is \<^term>\<open>map snd\<close>, \<^verbatim>\<open>clear()\<close> gives \<^term>\<open>[]\<close>.
\<close>

type_synonym 'v js_map = "(string \<times> 'v) list"

definition has :: "'v js_map \<Rightarrow> string \<Rightarrow> bool" where
  "has m k = (case map_of m k of None \<Rightarrow> False | Some v \<Rightarrow> True)"

text \<open>
  \<^verbatim>\<open>size\<close>: the list holds one pair for each key, since it is only built by
  \<^const>\<open>AList.update\<close> and \<^const>\<open>AList.delete\<close> from the empty list.
\<close>

definition size_of :: "'v js_map \<Rightarrow> int" where
  "size_of m = int (length m)"

subsection \<open>Files\<close>

text \<open>
  \<^verbatim>\<open>DATA_FILE\<close> (the same path as \<^verbatim>\<open>STRATEGIES.PRIMARY\<close>) and \<^verbatim>\<open>BACKUP_FILE\<close> of the basic
  variant, \<^verbatim>\<open>STRATEGIES.BACKUP\<close> and \<^verbatim>\<open>STRATEGIES.FALLBACK\<close> of the enhanced one.
\<close>

datatype location = DATA_FILE | BACKUP_FILE | BACKUP | FALLBACK

text \<open>
  The object \<^verbatim>\<open>data\<close> that is serialized, and what \<^verbatim>\<open>JSON.parse\<close> gives back:
  \<^verbatim>\<open>macAddresses\<close> is \<^term>\<open>None\<close> when the property is missing or is not an array.
\<close>

record data =
  macAddresses :: "entry list option"
  statistics_block :: "stats option"
  lastUpdated :: "timestamp option"
  version :: "string option"

datatype json = JsonNull | JsonObject data

text \<open>What \<^verbatim>\<open>fs.readFile\<close> followed by \<^verbatim>\<open>JSON.parse\<close> yields for a path.\<close>

datatype file_content = Unreadable | Unparseable | Parsed json

datatype fs_op = Mkdir | ReadFile location | WriteFile location json

text \<open>
  The file system: what each path holds, which calls the environment lets succeed, and
  the calls made so far.
\<close>

record disk =
  files :: "location \<Rightarrow> file_content"
  mkdir_ok :: bool
  write_ok :: "location \<Rightarrow> bool"
  calls :: "fs_op list"

definition mkdir :: "disk \<Rightarrow> bool \<times> disk" where
  "mkdir d = (mkdir_ok d, d\<lparr>calls := calls d @ [Mkdir]\<rparr>)"

definition readFile :: "location \<Rightarrow> disk \<Rightarrow> file_content \<times> disk" where
  "readFile l d = (files d l, d\<lparr>calls := calls d @ [ReadFile l]\<rparr>)"

definition writeFile :: "location \<Rightarrow> json \<Rightarrow> disk \<Rightarrow> bool \<times> disk" where
  "writeFile l j d =
     (if write_ok d l
      then (True, d\<lparr>files := (files d)(l := Parsed j), calls := calls d @ [WriteFile l j]\<rparr>)
      else (False, d\<lparr>calls := calls d @ [WriteFile l j]\<rparr>))"

subsection \<open>The process state\<close>

text \<open>
  \<^verbatim>\<open>macWhitelist\<close> and \<^verbatim>\<open>statistics\<close> are the two globals of the basic variant and the
  fields \<^verbatim>\<open>macAddresses\<close> and \<^verbatim>\<open>statistics\<close> of \<^verbatim>\<open>memoryStore\<close>; the other three fields
  exist in the enhanced variant only.
\<close>

record state =
  macWhitelist :: "entry js_map"
  statistics :: stats
  lastLoaded :: "timestamp option"
  initialized :: bool
  MEMORY_BACKUP :: "data option"

section \<open>Durability\<close>

subsection \<open>Persist\<close>

definition snapshot :: "string \<Rightarrow> timestamp \<Rightarrow> state \<Rightarrow> data" where
  "snapshot ver now st =
     \<lparr>macAddresses = Some (map snd (macWhitelist st)),
      statistics_block = Some (statistics st),
      lastUpdated = Some now,
      version = Some ver\<rparr>"

definition ensureDataDirectory :: "disk \<Rightarrow> disk" where
  "ensureDataDirectory d = snd (mkdir d)"

text \<open>\<^verbatim>\<open>saveMACWhitelist\<close> (basic variant): two \<^verbatim>\<open>try\<close> blocks, nothing returned.\<close>

definition saveMACWhitelist :: "timestamp \<Rightarrow> state \<Rightarrow> disk \<Rightarrow> disk" where
  "saveMACWhitelist now st d =
     (let jsonData = JsonObject (snapshot ''1.0'' now st);
          d1 = snd (writeFile DATA_FILE jsonData (ensureDataDirectory d));
          d2 = snd (writeFile BACKUP_FILE jsonData d1)
      in d2)"

record save_result =
  name :: string
  succeeded :: bool

definition targets :: "(string \<times> location) list" where
  "targets = [(''Primary'', DATA_FILE), (''Backup'', BACKUP), (''Fallback'', FALLBACK)]"

text \<open>
  The loop of \<^verbatim>\<open>saveToStorage\<close>: for the target named Primary the directory is made
  first, inside the same \<^verbatim>\<open>try\<close>, so a failing \<^verbatim>\<open>mkdir\<close> goes to the \<^verbatim>\<open>catch\<close> and the
  write of that target is not reached.
\<close>

fun save_targets ::
  "(string \<times> location) list \<Rightarrow> json \<Rightarrow> disk \<Rightarrow> save_result list \<Rightarrow> save_result list \<times> disk" where
  "save_targets [] jsonData d results = (results, d)"
| "save_targets (target # rest) jsonData d results =
     (let (made, d1) = (if fst target = ''Primary'' then mkdir d else (True, d)) in
      if \<not> made
      then save_targets rest jsonData d1 (results @ [\<lparr>name = fst target, succeeded = False\<rparr>])
      else
        (let (written, d2) = writeFile (snd target) jsonData d1 in
         save_targets rest jsonData d2 (results @ [\<lparr>name = fst target, succeeded = written\<rparr>])))"

text \<open>
  \<^verbatim>\<open>saveToStorage\<close> (enhanced variant) returns \<^verbatim>\<open>successCount > 0\<close>; the list \<^verbatim>\<open>results\<close>,
  which the code logs line by line, is returned beside it here.
\<close>

definition saveToStorage :: "timestamp \<Rightarrow> state \<Rightarrow> disk \<Rightarrow> bool \<times> save_result list \<times> state \<times> disk" where
  "saveToStorage now st d =
     (let dat = snapshot ''2.0'' now st;
          (results, d') = save_targets targets (JsonObject dat) d [];
          successCount = length (filter succeeded results)
      in (successCount > 0, results, st\<lparr>MEMORY_BACKUP := Some dat\<rparr>, d'))"

subsection \<open>Load\<close>

text \<open>\<^verbatim>\<open>entries.forEach(entry => map.set(entry.macAddress, entry))\<close> on a cleared map.\<close>

definition populate :: "entry list \<Rightarrow> entry js_map" where
  "populate es = foldl (\<lambda>m e. AList.update (macAddress e) e m) [] es"

text \<open>\<^verbatim>\<open>statistics = { ...statistics, ...parsed.statistics }\<close> when the block is there.\<close>

definition adopt_statistics :: "stats option \<Rightarrow> stats \<Rightarrow> stats" where
  "adopt_statistics blk s = (case blk of None \<Rightarrow> s | Some s' \<Rightarrow> s')"

text \<open>
  The loop of \<^verbatim>\<open>loadFromStorage\<close>. A read or parse error, and the \<^verbatim>\<open>TypeError\<close> of
  \<^verbatim>\<open>parsed.macAddresses\<close> on \<^verbatim>\<open>null\<close>, go to the \<^verbatim>\<open>catch\<close>, which continues; a parsed
  object without an array \<^verbatim>\<open>macAddresses\<close> falls through to the next source.
\<close>

fun load_sources ::
  "(string \<times> location) list \<Rightarrow> timestamp \<Rightarrow> state \<Rightarrow> disk \<Rightarrow> state \<times> disk" where
  "load_sources [] now st d = (st\<lparr>macWhitelist := []\<rparr>, d)"
| "load_sources (source # rest) now st d =
     (let (f, d1) = readFile (snd source) d in
      case f of
        Unreadable \<Rightarrow> load_sources rest now st d1
      | Unparseable \<Rightarrow> load_sources rest now st d1
      | Parsed JsonNull \<Rightarrow> load_sources rest now st d1
      | Parsed (JsonObject parsed) \<Rightarrow>
          (case macAddresses parsed of
             None \<Rightarrow> load_sources rest now st d1
           | Some es \<Rightarrow>
               (st\<lparr>macWhitelist := populate es,
                   statistics := adopt_statistics (statistics_block parsed) (statistics st),
                   lastLoaded := Some now\<rparr>, d1)))"

definition sources :: "(string \<times> location) list" where
  "sources = [(''Primary'', DATA_FILE), (''Backup'', BACKUP), (''Fallback'', FALLBACK)]"

definition loadFromStorage :: "timestamp \<Rightarrow> state \<Rightarrow> disk \<Rightarrow> state \<times> disk" where
  "loadFromStorage now st d = load_sources sources now st d"

definition initializeStorage :: "timestamp \<Rightarrow> state \<Rightarrow> disk \<Rightarrow> state \<times> disk" where
  "initializeStorage now st d =
     (if initialized st then (st, d)
      else (let (st', d') = loadFromStorage now st d in (st'\<lparr>initialized := True\<rparr>, d')))"

text \<open>
  \<^verbatim>\<open>loadMACWhitelist\<close> (basic variant). The backup is tried when reading or parsing the
  main file throws; whatever was parsed is then used: its \<^verbatim>\<open>macAddresses\<close> when that is an
  array, nothing otherwise. \<^verbatim>\<open>data.macAddresses\<close> on \<^verbatim>\<open>null\<close> throws into the outer
  \<^verbatim>\<open>catch\<close>, which clears the map.
\<close>

definition use_data :: "json \<Rightarrow> state \<Rightarrow> state" where
  "use_data j st =
     (case j of
        JsonNull \<Rightarrow> st\<lparr>macWhitelist := []\<rparr>
      | JsonObject dat \<Rightarrow>
          st\<lparr>macWhitelist := (case macAddresses dat of None \<Rightarrow> [] | Some es \<Rightarrow> populate es),
             statistics := adopt_statistics (statistics_block dat) (statistics st)\<rparr>)"

definition loadMACWhitelist :: "state \<Rightarrow> disk \<Rightarrow> state \<times> disk" where
  "loadMACWhitelist st d =
     (let (mainFile, d1) = readFile DATA_FILE (ensureDataDirectory d) in
      case mainFile of
        Parsed dat \<Rightarrow> (use_data dat st, d1)
      | _ \<Rightarrow>
          (let (backupFile, d2) = readFile BACKUP_FILE d1 in
           case backupFile of
             Parsed dat \<Rightarrow> (use_data dat st, snd (writeFile DATA_FILE dat d2))
           | _ \<Rightarrow>
               (use_data (JsonObject \<lparr>macAddresses = Some [], statistics_block = Some (statistics st),
                           lastUpdated = None, version = None\<rparr>) st, d2)))"

section \<open>Statistics\<close>

text \<open>The body of the loop of \<^verbatim>\<open>updateStatistics\<close>, with \<^verbatim>\<open>now\<close> sampled before the loop.\<close>

definition count_entry :: "timestamp \<Rightarrow> stats \<Rightarrow> entry \<Rightarrow> stats" where
  "count_entry now s e =
     (let oneDayAgo = now - 24 * 60 * 60 * 1000;
          oneWeekAgo = now - 7 * 24 * 60 * 60 * 1000;
          seen = (case lastSeen e of None \<Rightarrow> 0 | Some t \<Rightarrow> t);
          s1 = s\<lparr>totalAccesses := totalAccesses s + or_zero (accessCount e)\<rparr>
      in if seen = 0 then s1\<lparr>neverUsed := neverUsed s1 + 1\<rparr>
         else
           (let s2 = (if seen > oneDayAgo then s1\<lparr>activeLast24h := activeLast24h s1 + 1\<rparr> else s1)
            in if seen > oneWeekAgo then s2\<lparr>activeLast7d := activeLast7d s2 + 1\<rparr> else s2))"

definition updateStatistics :: "timestamp \<Rightarrow> state \<Rightarrow> state" where
  "updateStatistics now st =
     st\<lparr>statistics :=
          foldl (count_entry now)
            \<lparr>total = size_of (macWhitelist st), activeLast24h = 0, activeLast7d = 0,
             neverUsed = 0, totalAccesses = 0\<rparr>
            (map snd (macWhitelist st))\<rparr>"

section \<open>Request handlers of the two file-backed variants\<close>

text \<open>
  The handler bodies of \<^verbatim>\<open>api/mac-auth.js\<close> and \<^verbatim>\<open>api/mac-auth-enhanced.js\<close> are the same
  text up to the save procedure they call and the \<^verbatim>\<open>persistent\<close> property the enhanced
  variant adds to some responses, so each handler is written once, with the variant as
  a parameter. One \<^verbatim>\<open>now\<close> stands for every \<^verbatim>\<open>new Date()\<close> of a request. The \<^verbatim>\<open>message\<close>
  text of a response is not kept.
\<close>

datatype variant = Basic | Enhanced

definition persist :: "variant \<Rightarrow> timestamp \<Rightarrow> state \<Rightarrow> disk \<Rightarrow> bool option \<times> state \<times> disk" where
  "persist v now st d =
     (case v of
        Basic \<Rightarrow> (None, st, saveMACWhitelist now st d)
      | Enhanced \<Rightarrow> (let (saved, results, st', d') = saveToStorage now st d in (Some saved, st', d')))"

record access_view =
  view_macAddress :: string
  view_description :: string
  view_accessType :: string
  view_addedAt :: timestamp
  view_lastSeen :: "timestamp option"
  view_accessCount :: "int option"

record bulk_result =
  item_macAddress :: string
  item_success :: bool
  item_message :: string

datatype payload =
    Access access_view
  | Entry entry
  | Listing "entry list" stats
  | Bulk "bulk_result list" nat nat

record response =
  status :: nat
  success :: bool
  body :: "payload option"
  persistent :: "bool option"

definition reply :: "nat \<Rightarrow> bool \<Rightarrow> response" where
  "reply code ok = \<lparr>status = code, success = ok, body = None, persistent = None\<rparr>"

text \<open>\<^verbatim>\<open>process.env.ADMIN_SECRET_KEY || "default-admin-key-change-this"\<close>, compared with \<^verbatim>\<open>===\<close>.\<close>

definition validateAdminKey :: "string option \<Rightarrow> string option \<Rightarrow> bool" where
  "validateAdminKey env_key providedKey =
     (providedKey = Some (or_else env_key ''default-admin-key-change-this''))"

subsection \<open>check-access\<close>

text \<open>
  The \<^verbatim>\<open>for\<close> loop with its \<^verbatim>\<open>break\<close>: the key that matched and the entry stored there.
  The candidates are strings.
\<close>

fun find_authorized :: "entry js_map \<Rightarrow> string list \<Rightarrow> (string \<times> entry) option" where
  "find_authorized wl [] = None"
| "find_authorized wl (mac # rest) =
     (let normalizedMac = toLowerCase mac in
      if has wl normalizedMac
      then map_option (Pair normalizedMac) (map_of wl normalizedMac)
      else find_authorized wl rest)"

definition handleCheckAccess ::
  "variant \<Rightarrow> timestamp \<Rightarrow> string list option \<Rightarrow> deviceInfo option \<Rightarrow> state \<Rightarrow> disk
     \<Rightarrow> response \<times> state \<times> disk" where
  "handleCheckAccess v now macs devInfo st d =
     (case macs of
        None \<Rightarrow> (reply 400 False, st, d)
      | Some ms \<Rightarrow>
          if ms = [] then (reply 400 False, st, d)
          else
            (case find_authorized (macWhitelist st) ms of
               None \<Rightarrow> (reply 403 False, st, d)
             | Some (normalizedMac, authorizedEntry) \<Rightarrow>
                 (let e1 = authorizedEntry
                            \<lparr>lastSeen := Some now,
                             accessCount := Some (or_zero (accessCount authorizedEntry) + 1)\<rparr>;
                      e2 = (case devInfo of
                              None \<Rightarrow> e1
                            | Some di \<Rightarrow>
                                e1\<lparr>lastDevice :=
                                     Some \<lparr>hostname = hostname di, username = username di,
                                           platform = platform di, localIP = localIP di,
                                           publicIP = publicIP di\<rparr>\<rparr>);
                      st1 = st\<lparr>macWhitelist := AList.update normalizedMac e2 (macWhitelist st)\<rparr>;
                      (saved, st2, d2) = persist v now st1 d
                  in (\<lparr>status = 200, success = True,
                       body = Some (Access
                         \<lparr>view_macAddress = macAddress e2,
                          view_description = description e2,
                          view_accessType = or_else (accessType e2) ''trial'',
                          view_addedAt = addedAt e2,
                          view_lastSeen = lastSeen e2,
                          view_accessCount = accessCount e2\<rparr>),
                       persistent = None\<rparr>, st2, d2))))"

subsection \<open>add-mac, update-access, remove-mac, list-macs\<close>

definition handleAddMAC ::
  "variant \<Rightarrow> string option \<Rightarrow> timestamp \<Rightarrow> string option \<Rightarrow> string option \<Rightarrow> string option
     \<Rightarrow> string option \<Rightarrow> state \<Rightarrow> disk \<Rightarrow> response \<times> state \<times> disk" where
  "handleAddMAC v env_key now mac descr accType adminKey st d =
     (if \<not> validateAdminKey env_key adminKey then (reply 403 False, st, d)
      else if falsy mac then (reply 400 False, st, d)
      else
        (let normalizedMac = toLowerCase (or_else mac []);
             finalAccessType = (if includes_val validAccessTypes accType then accType else Some ''trial'')
         in if has (macWhitelist st) normalizedMac then (reply 409 False, st, d)
            else
              (let e = \<lparr>macAddress = normalizedMac,
                        description = or_else descr ''No description'',
                        accessType = finalAccessType,
                        addedAt = now,
                        updatedAt = None,
                        lastSeen = None,
                        accessCount = Some 0,
                        lastDevice = None\<rparr>;
                   st1 = st\<lparr>macWhitelist := AList.update normalizedMac e (macWhitelist st)\<rparr>;
                   (saved, st2, d2) = persist v now st1 d
               in (\<lparr>status = 201, success = True, body = Some (Entry e), persistent = saved\<rparr>,
                   st2, d2))))"

definition handleUpdateAccess ::
  "variant \<Rightarrow> string option \<Rightarrow> timestamp \<Rightarrow> string option \<Rightarrow> string option
     \<Rightarrow> string option \<Rightarrow> state \<Rightarrow> disk \<Rightarrow> response \<times> state \<times> disk" where
  "handleUpdateAccess v env_key now mac accType adminKey st d =
     (if \<not> validateAdminKey env_key adminKey then (reply 403 False, st, d)
      else if falsy mac \<or> falsy accType then (reply 400 False, st, d)
      else
        (let normalizedMac = toLowerCase (or_else mac []) in
         if \<not> includes_val validAccessTypes accType then (reply 400 False, st, d)
         else
           (case map_of (macWhitelist st) normalizedMac of
              None \<Rightarrow> (reply 404 False, st, d)
            | Some e0 \<Rightarrow>
                (let e = e0\<lparr>accessType := accType, updatedAt := Some now\<rparr>;
                     st1 = st\<lparr>macWhitelist := AList.update normalizedMac e (macWhitelist st)\<rparr>;
                     (saved, st2, d2) = persist v now st1 d
                 in (\<lparr>status = 200, success = True, body = Some (Entry e), persistent = saved\<rparr>,
                     st2, d2)))))"

definition handleRemoveMAC ::
  "variant \<Rightarrow> string option \<Rightarrow> timestamp \<Rightarrow> string option \<Rightarrow> string option
     \<Rightarrow> state \<Rightarrow> disk \<Rightarrow> response \<times> state \<times> disk" where
  "handleRemoveMAC v env_key now mac adminKey st d =
     (if \<not> validateAdminKey env_key adminKey then (reply 403 False, st, d)
      else if falsy mac then (reply 400 False, st, d)
      else
        (let normalizedMac = toLowerCase (or_else mac []) in
         if \<not> has (macWhitelist st) normalizedMac then (reply 404 False, st, d)
         else
           (let st1 = st\<lparr>macWhitelist := AList.delete normalizedMac (macWhitelist st)\<rparr>;
                (saved, st2, d2) = persist v now st1 d
            in (\<lparr>status = 200, success = True, body = None, persistent = saved\<rparr>, st2, d2))))"

text \<open>
  The list is sorted by \<^verbatim>\<open>addedAt\<close>, latest first; \<^verbatim>\<open>Array.prototype.sort\<close> is stable, as
  \<^const>\<open>sort_key\<close> is.
\<close>

definition handleListMACs ::
  "string option \<Rightarrow> timestamp \<Rightarrow> string option \<Rightarrow> state \<Rightarrow> disk \<Rightarrow> response \<times> state \<times> disk" where
  "handleListMACs env_key now adminKey st d =
     (if \<not> validateAdminKey env_key adminKey then (reply 403 False, st, d)
      else
        (let st1 = updateStatistics now st in
         (\<lparr>status = 200, success = True,
           body = Some (Listing (sort_key (\<lambda>e. - addedAt e) (map snd (macWhitelist st1)))
                                (statistics st1)),
           persistent = None\<rparr>, st1, d)))"

subsection \<open>bulk-add\<close>

record macData =
  item_mac :: "string option"
  item_description :: "string option"
  item_accessType :: "string option"

text \<open>
  The loop of \<^verbatim>\<open>handleBulkAdd\<close>: the map, \<^verbatim>\<open>results\<close> and \<^verbatim>\<open>addedCount\<close> are carried from
  one item to the next.
\<close>

fun bulk_loop ::
  "timestamp \<Rightarrow> macData list \<Rightarrow> entry js_map \<Rightarrow> bulk_result list \<Rightarrow> nat
     \<Rightarrow> entry js_map \<times> bulk_result list \<times> nat" where
  "bulk_loop now [] wl results addedCount = (wl, results, addedCount)"
| "bulk_loop now (md # rest) wl results addedCount =
     (let normalizedMac = (if falsy (item_mac md) then [] else toLowerCase (or_else (item_mac md) []));
          finalAccessType = (if includes_val validAccessTypes (item_accessType md)
                             then item_accessType md else Some ''trial'')
      in if falsy (item_mac md)
         then bulk_loop now rest wl
                (results @ [\<lparr>item_macAddress = or_else (item_mac md) ''invalid'', item_success = False,
                              item_message = ''Invalid MAC address''\<rparr>])
                addedCount
         else if has wl normalizedMac
         then bulk_loop now rest wl
                (results @ [\<lparr>item_macAddress = normalizedMac, item_success = False,
                              item_message = ''Already exists''\<rparr>])
                addedCount
         else
           (let e = \<lparr>macAddress = normalizedMac,
                     description = or_else (item_description md) ''Bulk added'',
                     accessType = finalAccessType,
                     addedAt = now,
                     updatedAt = None,
                     lastSeen = None,
                     accessCount = Some 0,
                     lastDevice = None\<rparr>
            in bulk_loop now rest (AList.update normalizedMac e wl)
                 (results @ [\<lparr>item_macAddress = normalizedMac, item_success = True,
                               item_message = ''Added successfully''\<rparr>])
                 (addedCount + 1)))"

text \<open>
  Without a save the enhanced variant answers \<^verbatim>\<open>persistent: false\<close>; the basic variant has
  no such property.
\<close>

definition handleBulkAdd ::
  "variant \<Rightarrow> string option \<Rightarrow> timestamp \<Rightarrow> macData list option \<Rightarrow> string option
     \<Rightarrow> state \<Rightarrow> disk \<Rightarrow> response \<times> state \<times> disk" where
  "handleBulkAdd v env_key now items adminKey st d =
     (if \<not> validateAdminKey env_key adminKey then (reply 403 False, st, d)
      else
        (case items of
           None \<Rightarrow> (reply 400 False, st, d)
         | Some mds \<Rightarrow>
             (let (wl, results, addedCount) = bulk_loop now mds (macWhitelist st) [] 0;
                  st1 = st\<lparr>macWhitelist := wl\<rparr>;
                  (saved, st2, d2) =
                    (if addedCount > 0 then persist v now st1 d
                     else (case v of Basic \<Rightarrow> None | Enhanced \<Rightarrow> Some False, st1, d))
              in (\<lparr>status = 200, success = True,
                   body = Some (Bulk results (length mds) addedCount),
                   persistent = saved\<rparr>, st2, d2))))"

subsection \<open>Dispatch\<close>

datatype request =
    CheckAccess "string list option" "deviceInfo option"
  | AddMac "string option" "string option" "string option" "string option"
  | UpdateAccess "string option" "string option" "string option"
  | RemoveMac "string option" "string option"
  | ListMacs "string option"
  | BulkAdd "macData list option" "string option"
  | OtherAction

text \<open>The \<^verbatim>\<open>switch (action)\<close> of \<^verbatim>\<open>handler\<close>; the enhanced variant's \<^verbatim>\<open>health\<close> is left out.\<close>

definition dispatch ::
  "variant \<Rightarrow> string option \<Rightarrow> timestamp \<Rightarrow> request \<Rightarrow> state \<Rightarrow> disk \<Rightarrow> response \<times> state \<times> disk" where
  "dispatch v env_key now req st d =
     (case req of
        CheckAccess macs devInfo \<Rightarrow> handleCheckAccess v now macs devInfo st d
      | AddMac mac descr accType adminKey \<Rightarrow> handleAddMAC v env_key now mac descr accType adminKey st d
      | UpdateAccess mac accType adminKey \<Rightarrow> handleUpdateAccess v env_key now mac accType adminKey st d
      | RemoveMac mac adminKey \<Rightarrow> handleRemoveMAC v env_key now mac adminKey st d
      | ListMacs adminKey \<Rightarrow> handleListMACs env_key now adminKey st d
      | BulkAdd items adminKey \<Rightarrow> handleBulkAdd v env_key now items adminKey st d
      | OtherAction \<Rightarrow> (reply 400 False, st, d))"


section \<open>The database class\<close>

text \<open>
  \<^verbatim>\<open>MACDatabase\<close> keeps everything in one file, read at the start of each method and
  written at its end. \<^verbatim>\<open>macAddresses\<close> is an object keyed by address. The keys looked up
  are addresses (the handler of this variant lets through only strings of the address
  pattern, none of which names an inherited property), so a property lookup
  \<^verbatim>\<open>data.macAddresses[k]\<close> is a lookup among the object's own keys; what is stored there
  is an entry object, so the truthiness test of the code is the test that the key is
  there.
  The identifiers of \<^verbatim>\<open>crypto.randomUUID()\<close> are parameters. The access log, which no
  method reads back into a result, and the properties \<^verbatim>\<open>version\<close> and \<^verbatim>\<open>created\<close> are
  not kept.
\<close>

record db_entry =
  db_description :: string
  db_accessType :: "string option"
  db_addedAt :: timestamp
  db_updatedAt :: "timestamp option"
  db_lastSeen :: "timestamp option"
  db_accessCount :: "int option"
  db_lastDevice :: "device option"
  db_id :: string

record db_statistics =
  totalDevices :: int
  db_totalAccesses :: "int option"
  db_lastUpdated :: timestamp

record database =
  db_macAddresses :: "db_entry js_map"
  db_stats :: db_statistics

text \<open>
  The file \<^verbatim>\<open>macFile\<close>: \<^term>\<open>None\<close> when reading or parsing it throws; whether the
  environment lets a write succeed; and what each call of \<^verbatim>\<open>fs.writeFile\<close> on it was given.
\<close>

record db_disk =
  macFile :: "database option"
  macFile_writable :: bool
  macFile_writes :: "database list"

definition readDatabase :: "timestamp \<Rightarrow> db_disk \<Rightarrow> database" where
  "readDatabase now fs =
     (case macFile fs of
        Some dat \<Rightarrow> dat
      | None \<Rightarrow> \<lparr>db_macAddresses = [],
                 db_stats = \<lparr>totalDevices = 0, db_totalAccesses = Some 0, db_lastUpdated = now\<rparr>\<rparr>)"

definition writeDatabase :: "timestamp \<Rightarrow> database \<Rightarrow> db_disk \<Rightarrow> bool \<times> db_disk" where
  "writeDatabase now dat fs =
     (let dat' = dat\<lparr>db_stats := (db_stats dat)\<lparr>db_lastUpdated := now,
                                               totalDevices := size_of (db_macAddresses dat)\<rparr>\<rparr>
      in if macFile_writable fs
         then (True, fs\<lparr>macFile := Some dat', macFile_writes := macFile_writes fs @ [dat']\<rparr>)
         else (False, fs\<lparr>macFile_writes := macFile_writes fs @ [dat']\<rparr>))"

datatype db_message =
    Device_authorized
  | Device_not_authorized
  | Already_exists
  | Added_successfully
  | Failed_to_save
  | Not_found
  | Updated_successfully
  | Removed_successfully
  | Bulk_completed nat nat
  | Database_error
  | Bulk_add_error

record bulk_status =
  bs_macAddress :: string
  bs_status :: string
  bs_detail :: string

datatype db_payload =
    DbAccess access_view
  | DbEntry db_entry
  | DbBulk "bulk_status list" nat nat nat

record db_result =
  db_success :: bool
  db_message :: db_message
  db_data :: "db_payload option"

text \<open>The loop of \<^verbatim>\<open>checkAccess\<close>, which returns from inside at the first match.\<close>

fun db_find :: "db_entry js_map \<Rightarrow> string list \<Rightarrow> (string \<times> db_entry) option" where
  "db_find m [] = None"
| "db_find m (mac # rest) =
     (let normalizedMac = toLowerCase mac in
      case map_of m normalizedMac of
        Some e \<Rightarrow> Some (normalizedMac, e)
      | None \<Rightarrow> db_find m rest)"

text \<open>
  \<^verbatim>\<open>checkAccess\<close>. With no \<^verbatim>\<open>deviceInfo\<close>, \<^verbatim>\<open>deviceInfo.hostname\<close> throws at a match, before
  anything is written, and the \<^verbatim>\<open>catch\<close> answers with a database error.
\<close>

definition checkAccess ::
  "timestamp \<Rightarrow> string list \<Rightarrow> deviceInfo option \<Rightarrow> db_disk \<Rightarrow> db_result \<times> db_disk" where
  "checkAccess now macs devInfo fs =
     (let dat = readDatabase now fs in
      case db_find (db_macAddresses dat) macs of
        None \<Rightarrow> (\<lparr>db_success = False, db_message = Device_not_authorized, db_data = None\<rparr>, fs)
      | Some (normalizedMac, e0) \<Rightarrow>
          (case devInfo of
             None \<Rightarrow> (\<lparr>db_success = False, db_message = Database_error, db_data = None\<rparr>, fs)
           | Some di \<Rightarrow>
               (let e = e0\<lparr>db_lastSeen := Some now,
                           db_accessCount := Some (or_zero (db_accessCount e0) + 1),
                           db_lastDevice :=
                             Some \<lparr>hostname = hostname di, username = username di,
                                   platform = platform di, localIP = localIP di,
                                   publicIP = publicIP di\<rparr>\<rparr>;
                    dat1 = dat\<lparr>db_macAddresses := AList.update normalizedMac e (db_macAddresses dat),
                               db_stats := (db_stats dat)
                                 \<lparr>db_totalAccesses := Some (or_zero (db_totalAccesses (db_stats dat)) + 1)\<rparr>\<rparr>;
                    (written, fs') = writeDatabase now dat1 fs
                in (\<lparr>db_success = True, db_message = Device_authorized,
                     db_data = Some (DbAccess
                       \<lparr>view_macAddress = normalizedMac,
                        view_description = db_description e,
                        view_accessType = or_else (db_accessType e) ''trial'',
                        view_addedAt = db_addedAt e,
                        view_lastSeen = db_lastSeen e,
                        view_accessCount = db_accessCount e\<rparr>)\<rparr>, fs'))))"

definition addMACAddress ::
  "timestamp \<Rightarrow> string \<Rightarrow> string \<Rightarrow> string \<Rightarrow> string option \<Rightarrow> db_disk \<Rightarrow> db_result \<times> db_disk" where
  "addMACAddress now uuid mac descr accType fs =
     (let normalizedMac = toLowerCase mac;
          dat = readDatabase now fs
      in if has (db_macAddresses dat) normalizedMac
         then (\<lparr>db_success = False, db_message = Already_exists, db_data = None\<rparr>, fs)
         else
           (let e = \<lparr>db_description = descr,
                     db_accessType = Some (case accType of None \<Rightarrow> ''trial'' | Some a \<Rightarrow> a),
                     db_addedAt = now,
                     db_updatedAt = None,
                     db_lastSeen = None,
                     db_accessCount = Some 0,
                     db_lastDevice = None,
                     db_id = uuid\<rparr>;
                dat1 = dat\<lparr>db_macAddresses := AList.update normalizedMac e (db_macAddresses dat)\<rparr>;
                (written, fs') = writeDatabase now dat1 fs
            in if written
               then (\<lparr>db_success = True, db_message = Added_successfully, db_data = Some (DbEntry e)\<rparr>, fs')
               else (\<lparr>db_success = False, db_message = Failed_to_save, db_data = None\<rparr>, fs')))"

definition updateMACAccess ::
  "timestamp \<Rightarrow> string \<Rightarrow> string \<Rightarrow> db_disk \<Rightarrow> db_result \<times> db_disk" where
  "updateMACAccess now mac accType fs =
     (let normalizedMac = toLowerCase mac;
          dat = readDatabase now fs
      in case map_of (db_macAddresses dat) normalizedMac of
           None \<Rightarrow> (\<lparr>db_success = False, db_message = Not_found, db_data = None\<rparr>, fs)
         | Some e0 \<Rightarrow>
             (let e = e0\<lparr>db_accessType := Some accType, db_updatedAt := Some now\<rparr>;
                  dat1 = dat\<lparr>db_macAddresses := AList.update normalizedMac e (db_macAddresses dat)\<rparr>;
                  (written, fs') = writeDatabase now dat1 fs
              in if written
                 then (\<lparr>db_success = True, db_message = Updated_successfully, db_data = Some (DbEntry e)\<rparr>, fs')
                 else (\<lparr>db_success = False, db_message = Failed_to_save, db_data = None\<rparr>, fs')))"

definition removeMACAddress :: "timestamp \<Rightarrow> string \<Rightarrow> db_disk \<Rightarrow> db_result \<times> db_disk" where
  "removeMACAddress now mac fs =
     (let normalizedMac = toLowerCase mac;
          dat = readDatabase now fs
      in if \<not> has (db_macAddresses dat) normalizedMac
         then (\<lparr>db_success = False, db_message = Not_found, db_data = None\<rparr>, fs)
         else
           (let dat1 = dat\<lparr>db_macAddresses := AList.delete normalizedMac (db_macAddresses dat)\<rparr>;
                (written, fs') = writeDatabase now dat1 fs
            in if written
               then (\<lparr>db_success = True, db_message = Removed_successfully, db_data = None\<rparr>, fs')
               else (\<lparr>db_success = False, db_message = Failed_to_save, db_data = None\<rparr>, fs')))"

text \<open>
  The loop of \<^verbatim>\<open>bulkAddMACs\<close>. An item without \<^verbatim>\<open>macAddress\<close> makes
  \<^verbatim>\<open>macEntry.macAddress.toLowerCase()\<close> throw: the result is \<^term>\<open>None\<close>. A result record
  holds the address, \<^verbatim>\<open>status\<close>, and the \<^verbatim>\<open>reason\<close> or the \<^verbatim>\<open>accessType\<close>.
\<close>

fun db_bulk_loop ::
  "timestamp \<Rightarrow> (nat \<Rightarrow> string) \<Rightarrow> macData list \<Rightarrow> db_entry js_map \<Rightarrow> bulk_status list \<Rightarrow> nat \<Rightarrow> nat
     \<Rightarrow> (db_entry js_map \<times> bulk_status list \<times> nat \<times> nat) option" where
  "db_bulk_loop now uuid [] m results addedCount skippedCount =
     Some (m, results, addedCount, skippedCount)"
| "db_bulk_loop now uuid (macEntry # rest) m results addedCount skippedCount =
     (case item_mac macEntry of
        None \<Rightarrow> None
      | Some mac \<Rightarrow>
          (let normalizedMac = toLowerCase mac in
           if has m normalizedMac
           then db_bulk_loop now uuid rest m
                  (results @ [\<lparr>bs_macAddress = normalizedMac, bs_status = ''skipped'',
                                bs_detail = ''Already exists''\<rparr>])
                  addedCount (skippedCount + 1)
           else
             (let e = \<lparr>db_description = or_else (item_description macEntry) ''Bulk added device'',
                       db_accessType = Some (or_else (item_accessType macEntry) ''trial''),
                       db_addedAt = now,
                       db_updatedAt = None,
                       db_lastSeen = None,
                       db_accessCount = Some 0,
                       db_lastDevice = None,
                       db_id = uuid addedCount\<rparr>
              in db_bulk_loop now uuid rest (AList.update normalizedMac e m)
                   (results @ [\<lparr>bs_macAddress = normalizedMac, bs_status = ''added'',
                                 bs_detail = or_else (item_accessType macEntry) ''trial''\<rparr>])
                   (addedCount + 1) skippedCount)))"

definition bulkAddMACs ::
  "timestamp \<Rightarrow> (nat \<Rightarrow> string) \<Rightarrow> macData list \<Rightarrow> db_disk \<Rightarrow> db_result \<times> db_disk" where
  "bulkAddMACs now uuid macAddressList fs =
     (let dat = readDatabase now fs in
      case db_bulk_loop now uuid macAddressList (db_macAddresses dat) [] 0 0 of
        None \<Rightarrow> (\<lparr>db_success = False, db_message = Bulk_add_error, db_data = None\<rparr>, fs)
      | Some (m, results, addedCount, skippedCount) \<Rightarrow>
          (let (written, fs') = writeDatabase now (dat\<lparr>db_macAddresses := m\<rparr>) fs in
           if written
           then (\<lparr>db_success = True, db_message = Bulk_completed addedCount skippedCount,
                  db_data = Some (DbBulk results (length macAddressList) addedCount skippedCount)\<rparr>, fs')
           else (\<lparr>db_success = False, db_message = Failed_to_save, db_data = None\<rparr>, fs')))"

section \<open>Notions of the specification\<close>

text \<open>
  A location yields a structurally valid snapshot when it can be read and parsed and
  what is parsed has a \<^verbatim>\<open>macAddresses\<close> collection; the entries of that collection.
\<close>

definition structurally_valid :: "file_content \<Rightarrow> entry list option" where
  "structurally_valid f =
     (case f of
        Parsed (JsonObject dat) \<Rightarrow> macAddresses dat
      | _ \<Rightarrow> None)"

text \<open>
  The creation time is immutable: an entry that is in the store before and after a step
  has the same \<^verbatim>\<open>addedAt\<close>.
\<close>

definition keeps_addedAt :: "entry js_map \<Rightarrow> entry js_map \<Rightarrow> bool" where
  "keeps_addedAt wl wl' =
     (\<forall>k e e'. map_of wl k = Some e \<longrightarrow> map_of wl' k = Some e' \<longrightarrow> addedAt e' = addedAt e)"

definition db_keeps_addedAt :: "db_entry js_map \<Rightarrow> db_entry js_map \<Rightarrow> bool" where
  "db_keeps_addedAt m m' =
     (\<forall>k e e'. map_of m k = Some e \<longrightarrow> map_of m' k = Some e' \<longrightarrow> db_addedAt e' = db_addedAt e)"

text \<open>
  The shape every store of the file-backed variants has: one pair for each key, and the
  key of an entry is its \<^verbatim>\<open>macAddress\<close>.
\<close>

definition well_keyed :: "entry js_map \<Rightarrow> bool" where
  "well_keyed wl = (distinct (map fst wl) \<and> list_all (\<lambda>p. macAddress (snd p) = fst p) wl)"

section \<open>Sample values\<close>

text \<open>Concrete stores, files and requests, on which the theorems below are instantiated.\<close>

definition laptop :: entry where
  "laptop =
     \<lparr>macAddress = ''aa:bb:cc:dd:ee:ff'', description = ''laptop'', accessType = Some ''trial'',
      addedAt = 10, updatedAt = None, lastSeen = None, accessCount = Some 0, lastDevice = None\<rparr>"

definition server :: entry where
  "server =
     \<lparr>macAddress = ''11:22:33:44:55:66'', description = ''server'', accessType = Some ''admin'',
      addedAt = 20, updatedAt = None, lastSeen = Some 50, accessCount = Some 5,
      lastDevice = Some \<lparr>hostname = Some ''old'', username = None, platform = None,
                         localIP = None, publicIP = None\<rparr>\<rparr>"

definition no_stats :: stats where
  "no_stats = \<lparr>total = 0, activeLast24h = 0, activeLast7d = 0, neverUsed = 0, totalAccesses = 0\<rparr>"

definition empty_state :: state where
  "empty_state =
     \<lparr>macWhitelist = [], statistics = no_stats, lastLoaded = None, initialized = True,
      MEMORY_BACKUP = None\<rparr>"

definition laptop_state :: state where
  "laptop_state = empty_state\<lparr>macWhitelist := [(''aa:bb:cc:dd:ee:ff'', laptop)]\<rparr>"

definition server_state :: state where
  "server_state = empty_state\<lparr>macWhitelist := [(''11:22:33:44:55:66'', server)]\<rparr>"

definition both_state :: state where
  "both_state =
     empty_state\<lparr>macWhitelist := [(''11:22:33:44:55:66'', server), (''aa:bb:cc:dd:ee:ff'', laptop)]\<rparr>"

definition stale_snapshot :: data where
  "stale_snapshot =
     \<lparr>macAddresses = Some [laptop\<lparr>addedAt := 99\<rparr>], statistics_block = Some no_stats,
      lastUpdated = Some 99, version = Some ''2.0''\<rparr>"

definition blank_disk :: disk where
  "blank_disk = \<lparr>files = (\<lambda>l. Unreadable), mkdir_ok = True, write_ok = (\<lambda>l. True), calls = []\<rparr>"

definition readonly_cwd_disk :: disk where
  "readonly_cwd_disk = blank_disk\<lparr>mkdir_ok := False, write_ok := (\<lambda>l. l \<noteq> DATA_FILE)\<rparr>"

definition dead_disk :: disk where
  "dead_disk = blank_disk\<lparr>mkdir_ok := False, write_ok := (\<lambda>l. False)\<rparr>"

definition shapeless_main_disk :: disk where
  "shapeless_main_disk =
     blank_disk\<lparr>files := (\<lambda>l. Unreadable)
       (DATA_FILE := Parsed (JsonObject \<lparr>macAddresses = None, statistics_block = None,
                                          lastUpdated = None, version = None\<rparr>),
        BACKUP_FILE := Parsed (JsonObject \<lparr>macAddresses = Some [laptop], statistics_block = None,
                                            lastUpdated = None, version = None\<rparr>),
        BACKUP := Parsed (JsonObject \<lparr>macAddresses = Some [laptop, server], statistics_block = None,
                                       lastUpdated = None, version = None\<rparr>),
        FALLBACK := Parsed (JsonObject \<lparr>macAddresses = Some [server], statistics_block = None,
                                         lastUpdated = None, version = None\<rparr>))\<rparr>"

definition item_upper :: macData where
  "item_upper =
     \<lparr>item_mac = Some ''AA:BB:CC:DD:EE:FF'', item_description = Some ''laptop'',
      item_accessType = Some ''trial''\<rparr>"

definition item_lower :: macData where
  "item_lower =
     \<lparr>item_mac = Some ''aa:bb:cc:dd:ee:ff'', item_description = None, item_accessType = None\<rparr>"

definition fixed_uuid :: "nat \<Rightarrow> string" where
  "fixed_uuid n = ''id-1''"

definition admin_key :: "string option" where
  "admin_key = Some ''default-admin-key-change-this''"


definition laptop_db :: db_disk where
  "laptop_db =
     \<lparr>macFile = Some
        \<lparr>db_macAddresses = [(''aa:bb:cc:dd:ee:ff'',
            \<lparr>db_description = ''laptop'', db_accessType = Some ''trial'', db_addedAt = 10,
             db_updatedAt = None, db_lastSeen = None, db_accessCount = Some 0,
             db_lastDevice = None, db_id = ''id-0''\<rparr>)],
         db_stats = \<lparr>totalDevices = 1, db_totalAccesses = Some 0, db_lastUpdated = 10\<rparr>\<rparr>,
      macFile_writable = True,
      macFile_writes = []\<rparr>"


definition fresh_db :: db_disk where
  "fresh_db = \<lparr>macFile = None, macFile_writable = True, macFile_writes = []\<rparr>"

section \<open>Lookup and the persist step\<close>

lemma has_iff: "has m k = (map_of m k \<noteq> None)"
  by (simp add: has_def split: option.splits)

lemma find_authorized_filter:
  "find_authorized wl ms =
     (case filter (\<lambda>m. has wl (toLowerCase m)) ms of
        [] \<Rightarrow> None
      | c # _ \<Rightarrow> map_option (Pair (toLowerCase c)) (map_of wl (toLowerCase c)))"
  by (induction ms) (simp_all add: Let_def)




lemma lower_samples:
  "toLowerCase ''AA:BB:CC:DD:EE:FF'' = ''aa:bb:cc:dd:ee:ff''"
  "toLowerCase ''aa:bb:cc:dd:ee:ff'' = ''aa:bb:cc:dd:ee:ff''"
  "toLowerCase ''11:22:33:44:55:66'' = ''11:22:33:44:55:66''"
  "toLowerCase ''00:00:00:00:00:01'' = ''00:00:00:00:00:01''"
  by (simp_all add: toLowerCase_def lower_char_def)

section \<open>check-access: the first match wins\<close>









section \<open>The persist step of a handler\<close>

lemma persist_state:
  "fst (snd (persist v now st d)) =
     (case v of Basic \<Rightarrow> st | Enhanced \<Rightarrow> st\<lparr>MEMORY_BACKUP := Some (snapshot ''2.0'' now st)\<rparr>)"
  by (cases v) (simp_all add: persist_def saveToStorage_def Let_def split: prod.splits)

lemma persist_macWhitelist [simp]:
  "macWhitelist (fst (snd (persist v now st d))) = macWhitelist st"
  by (cases v) (simp_all add: persist_state)

lemma persist_statistics [simp]:
  "statistics (fst (snd (persist v now st d))) = statistics st"
  by (cases v) (simp_all add: persist_state)

lemma falsy_Some [simp]: "falsy (Some x) = (x = [])"
  by (simp add: falsy_def)

lemma or_else_Some [simp]: "x \<noteq> [] \<Longrightarrow> or_else (Some x) dflt = x"
  by (simp add: or_else_def)

section \<open>remove-mac on an address that is not there\<close>

text \<open>
  Claim C7. A remove request whose lower-cased address is not a key of the store leaves
  the store and the files as they were, so the size of the store is the same; with a
  valid admin key and a non-empty address it is answered 404 with \<^verbatim>\<open>success: false\<close>.
  \<^verbatim>\<open>removeMACAddress\<close> of the database class answers with the not-found message and
  writes nothing.
\<close>

theorem remove_absent_not_found:
  "(\<not> has (macWhitelist st) (toLowerCase mac) \<longrightarrow>
        snd (handleRemoveMAC v env_key now (Some mac) adminKey st d) = (st, d)
      \<and> \<not> success (fst (handleRemoveMAC v env_key now (Some mac) adminKey st d))
      \<and> size_of (macWhitelist (fst (snd (handleRemoveMAC v env_key now (Some mac) adminKey st d))))
          = size_of (macWhitelist st)
      \<and> (validateAdminKey env_key adminKey \<and> mac \<noteq> [] \<longrightarrow>
           handleRemoveMAC v env_key now (Some mac) adminKey st d = (reply 404 False, st, d)))
   \<and> (\<not> has (db_macAddresses (readDatabase now fs)) (toLowerCase mac) \<longrightarrow>
        removeMACAddress now mac fs
          = (\<lparr>db_success = False, db_message = Not_found, db_data = None\<rparr>, fs))"
  by (simp add: handleRemoveMAC_def removeMACAddress_def reply_def Let_def)

theorem remove_absent_not_found_witness:
  "\<not> has (macWhitelist laptop_state) (toLowerCase ''11:22:33:44:55:66'')
   \<and> validateAdminKey None admin_key
   \<and> handleRemoveMAC Enhanced None 99 (Some ''11:22:33:44:55:66'') admin_key laptop_state blank_disk
       = (reply 404 False, laptop_state, blank_disk)
   \<and> \<not> has (db_macAddresses (readDatabase 99 laptop_db)) (toLowerCase ''11:22:33:44:55:66'')
   \<and> removeMACAddress 99 ''11:22:33:44:55:66'' laptop_db
       = (\<lparr>db_success = False, db_message = Not_found, db_data = None\<rparr>, laptop_db)"
proof -
  have a: "\<not> has (macWhitelist laptop_state) (toLowerCase ''11:22:33:44:55:66'')"
    by (simp add: lower_samples has_def laptop_state_def empty_state_def)
  have k: "validateAdminKey None admin_key"
    by (simp add: validateAdminKey_def admin_key_def or_else_def)
  have b: "\<not> has (db_macAddresses (readDatabase 99 laptop_db)) (toLowerCase ''11:22:33:44:55:66'')"
    by (simp add: lower_samples has_def laptop_db_def readDatabase_def)
  note t = remove_absent_not_found
    [of laptop_state "''11:22:33:44:55:66''" Enhanced None 99 admin_key blank_disk laptop_db]
  from t a k have "handleRemoveMAC Enhanced None 99 (Some ''11:22:33:44:55:66'') admin_key laptop_state blank_disk
       = (reply 404 False, laptop_state, blank_disk)"
    by simp
  moreover from t b have "removeMACAddress 99 ''11:22:33:44:55:66'' laptop_db
       = (\<lparr>db_success = False, db_message = Not_found, db_data = None\<rparr>, laptop_db)"
    by blast
  ultimately show ?thesis
    using a k b by blast
qed

lemma find_authorized_first:
  assumes "filter (\<lambda>m. has wl (toLowerCase m)) ms = c # cs"
    and "map_of wl (toLowerCase c) = Some e"
  shows "find_authorized wl ms = Some (toLowerCase c, e)"
  using assms by (simp add: find_authorized_filter)

lemma handleCheckAccess_match:
  assumes "filter (\<lambda>m. has (macWhitelist st) (toLowerCase m)) ms = c # cs"
    and "map_of (macWhitelist st) (toLowerCase c) = Some e"
  shows "handleCheckAccess v now (Some ms) devInfo st d =
     (let e1 = e\<lparr>lastSeen := Some now, accessCount := Some (or_zero (accessCount e) + 1)\<rparr>;
          e2 = (case devInfo of
                  None \<Rightarrow> e1
                | Some di \<Rightarrow>
                    e1\<lparr>lastDevice :=
                         Some \<lparr>hostname = hostname di, username = username di,
                               platform = platform di, localIP = localIP di,
                               publicIP = publicIP di\<rparr>\<rparr>);
          st1 = st\<lparr>macWhitelist := AList.update (toLowerCase c) e2 (macWhitelist st)\<rparr>
      in (\<lparr>status = 200, success = True,
           body = Some (Access
             \<lparr>view_macAddress = macAddress e2,
              view_description = description e2,
              view_accessType = or_else (accessType e2) ''trial'',
              view_addedAt = addedAt e2,
              view_lastSeen = lastSeen e2,
              view_accessCount = accessCount e2\<rparr>),
           persistent = None\<rparr>, snd (persist v now st1 d)))"
proof -
  from assms(1) have ne: "ms \<noteq> []"
    by auto
  have fa: "find_authorized (macWhitelist st) ms = Some (toLowerCase c, e)"
    using assms by (rule find_authorized_first)
  show ?thesis
    using ne fa by (simp add: handleCheckAccess_def Let_def split: prod.splits)
qed

section \<open>check-access without deviceInfo\<close>

text \<open>
  Claim C9. When \<^verbatim>\<open>deviceInfo\<close> is absent and \<^term>\<open>c\<close> is the first candidate whose
  lower-cased form is a key of the store, with entry \<^term>\<open>e\<close> there, the request is
  answered 200 with \<^verbatim>\<open>success: true\<close>, and the entry stored at that key afterwards is
  \<^term>\<open>e\<close> with \<^verbatim>\<open>lastSeen\<close> set to now and \<^verbatim>\<open>accessCount\<close> one higher: its
  \<^verbatim>\<open>lastDevice\<close> is the one it had.
\<close>

theorem check_access_without_deviceInfo:
  assumes "filter (\<lambda>m. has (macWhitelist st) (toLowerCase m)) ms = c # cs"
    and "map_of (macWhitelist st) (toLowerCase c) = Some e"
  shows "status (fst (handleCheckAccess v now (Some ms) None st d)) = 200
     \<and> success (fst (handleCheckAccess v now (Some ms) None st d))
     \<and> map_of (macWhitelist (fst (snd (handleCheckAccess v now (Some ms) None st d)))) (toLowerCase c)
         = Some (e\<lparr>lastSeen := Some now, accessCount := Some (or_zero (accessCount e) + 1)\<rparr>)
     \<and> map_option lastDevice
          (map_of (macWhitelist (fst (snd (handleCheckAccess v now (Some ms) None st d)))) (toLowerCase c))
         = Some (lastDevice e)
     \<and> map_option lastSeen
          (map_of (macWhitelist (fst (snd (handleCheckAccess v now (Some ms) None st d)))) (toLowerCase c))
         = Some (Some now)
     \<and> map_option accessCount
          (map_of (macWhitelist (fst (snd (handleCheckAccess v now (Some ms) None st d)))) (toLowerCase c))
         = Some (Some (or_zero (accessCount e) + 1))"
  by (simp add: handleCheckAccess_match [OF assms] Let_def update_conv')

theorem check_access_without_deviceInfo_witness:
  "filter (\<lambda>m. has (macWhitelist server_state) (toLowerCase m))
       [''00:00:00:00:00:01'', ''11:22:33:44:55:66''] = [''11:22:33:44:55:66'']
   \<and> map_of (macWhitelist server_state) (toLowerCase ''11:22:33:44:55:66'') = Some server
   \<and> status (fst (handleCheckAccess Enhanced 99
        (Some [''00:00:00:00:00:01'', ''11:22:33:44:55:66'']) None server_state blank_disk)) = 200
   \<and> map_of (macWhitelist (fst (snd (handleCheckAccess Enhanced 99
        (Some [''00:00:00:00:00:01'', ''11:22:33:44:55:66'']) None server_state blank_disk))))
        ''11:22:33:44:55:66''
       = Some (server\<lparr>lastSeen := Some 99, accessCount := Some 6\<rparr>)
   \<and> lastDevice (server\<lparr>lastSeen := Some 99, accessCount := Some 6\<rparr>)
       = Some \<lparr>hostname = Some ''old'', username = None, platform = None,
               localIP = None, publicIP = None\<rparr>"
proof -
  have f: "filter (\<lambda>m. has (macWhitelist server_state) (toLowerCase m))
       [''00:00:00:00:00:01'', ''11:22:33:44:55:66''] = [''11:22:33:44:55:66'']"
    by (simp add: lower_samples has_def server_state_def empty_state_def)
  have m: "map_of (macWhitelist server_state) (toLowerCase ''11:22:33:44:55:66'') = Some server"
    by (simp add: lower_samples server_state_def empty_state_def)
  have c: "or_zero (accessCount server) + 1 = 6"
    by (simp add: or_zero_def server_def)
  note t = check_access_without_deviceInfo [OF f m, of Enhanced 99 blank_disk]
  have l: "lastDevice (server\<lparr>lastSeen := Some 99, accessCount := Some 6\<rparr>)
       = Some \<lparr>hostname = Some ''old'', username = None, platform = None,
               localIP = None, publicIP = None\<rparr>"
    by (simp add: server_def)
  from t c f m l show ?thesis
    by (simp add: lower_samples)
qed

lemma valid_not_falsy: "includes_val validAccessTypes a \<Longrightarrow> \<not> falsy a"
  by (auto simp: includes_val_def validAccessTypes_def falsy_def split: option.splits)

lemma handleAddMAC_new:
  assumes "validateAdminKey env_key adminKey"
    and "mac \<noteq> []"
    and "\<not> has (macWhitelist st) (toLowerCase mac)"
  shows "handleAddMAC v env_key now (Some mac) descr accType adminKey st d =
     (let e = \<lparr>macAddress = toLowerCase mac,
               description = or_else descr ''No description'',
               accessType = (if includes_val validAccessTypes accType then accType else Some ''trial''),
               addedAt = now, updatedAt = None, lastSeen = None, accessCount = Some 0,
               lastDevice = None\<rparr>;
          st1 = st\<lparr>macWhitelist := AList.update (toLowerCase mac) e (macWhitelist st)\<rparr>
      in (\<lparr>status = 201, success = True, body = Some (Entry e),
           persistent = fst (persist v now st1 d)\<rparr>, snd (persist v now st1 d)))"
  using assms by (simp add: handleAddMAC_def Let_def case_prod_beta)


section \<open>add-mac and the access type\<close>



section \<open>The persist procedures\<close>

lemma saveMACWhitelist_calls:
  "calls (saveMACWhitelist now st d)
     = calls d @ [Mkdir, WriteFile DATA_FILE (JsonObject (snapshot ''1.0'' now st)),
                  WriteFile BACKUP_FILE (JsonObject (snapshot ''1.0'' now st))]"
  by (simp add: saveMACWhitelist_def ensureDataDirectory_def mkdir_def writeFile_def Let_def)


lemma save_targets_results:
  "fst (save_targets targets j d []) =
     [\<lparr>name = ''Primary'', succeeded = (mkdir_ok d \<and> write_ok d DATA_FILE)\<rparr>,
      \<lparr>name = ''Backup'', succeeded = write_ok d BACKUP\<rparr>,
      \<lparr>name = ''Fallback'', succeeded = write_ok d FALLBACK\<rparr>]"
  by (simp add: targets_def mkdir_def writeFile_def Let_def)

lemma save_targets_calls:
  "calls (snd (save_targets targets j d [])) =
     calls d @ Mkdir # (if mkdir_ok d then [WriteFile DATA_FILE j] else [])
       @ [WriteFile BACKUP j, WriteFile FALLBACK j]"
  by (simp add: targets_def mkdir_def writeFile_def Let_def)

lemma save_targets_files:
  "files (snd (save_targets targets j d [])) l =
     (if (l = DATA_FILE \<and> mkdir_ok d \<or> l = BACKUP \<or> l = FALLBACK) \<and> write_ok d l
      then Parsed j else files d l)"
  by (simp add: targets_def mkdir_def writeFile_def Let_def)

lemma saveToStorage_eval:
  "saveToStorage now st d =
     (mkdir_ok d \<and> write_ok d DATA_FILE \<or> write_ok d BACKUP \<or> write_ok d FALLBACK,
      fst (save_targets targets (JsonObject (snapshot ''2.0'' now st)) d []),
      st\<lparr>MEMORY_BACKUP := Some (snapshot ''2.0'' now st)\<rparr>,
      snd (save_targets targets (JsonObject (snapshot ''2.0'' now st)) d []))"
  by (auto simp: saveToStorage_def Let_def case_prod_beta save_targets_results)

text \<open>
  Claim C4, as amended. \<^verbatim>\<open>saveToStorage\<close> makes one attempt for each of its three
  locations, whatever happens at the others: for the primary location the attempt is
  \<^verbatim>\<open>mkdir\<close> followed by the write, and the write is not reached when \<^verbatim>\<open>mkdir\<close> fails;
  the writes at the two other locations are always made, with the same serialized
  snapshot. One record for each location tells whether it accepted the write, and the
  value returned is true exactly when some location did. \<^verbatim>\<open>saveMACWhitelist\<close> attempts
  its two writes whatever \<^verbatim>\<open>mkdir\<close> and the first write do, and returns nothing.
\<close>

theorem persist_attempts:
  "calls (snd (snd (snd (saveToStorage now st d))))
     = calls d @ Mkdir
         # (if mkdir_ok d then [WriteFile DATA_FILE (JsonObject (snapshot ''2.0'' now st))] else [])
         @ [WriteFile BACKUP (JsonObject (snapshot ''2.0'' now st)),
            WriteFile FALLBACK (JsonObject (snapshot ''2.0'' now st))]
   \<and> fst (snd (saveToStorage now st d))
     = [\<lparr>name = ''Primary'', succeeded = (mkdir_ok d \<and> write_ok d DATA_FILE)\<rparr>,
        \<lparr>name = ''Backup'', succeeded = write_ok d BACKUP\<rparr>,
        \<lparr>name = ''Fallback'', succeeded = write_ok d FALLBACK\<rparr>]
   \<and> fst (saveToStorage now st d)
     = (\<exists>r\<in>set (fst (snd (saveToStorage now st d))). succeeded r)
   \<and> fst (saveToStorage now st d)
     = (mkdir_ok d \<and> write_ok d DATA_FILE \<or> write_ok d BACKUP \<or> write_ok d FALLBACK)
   \<and> files (snd (snd (snd (saveToStorage now st d)))) BACKUP
     = (if write_ok d BACKUP then Parsed (JsonObject (snapshot ''2.0'' now st)) else files d BACKUP)
   \<and> files (snd (snd (snd (saveToStorage now st d)))) FALLBACK
     = (if write_ok d FALLBACK then Parsed (JsonObject (snapshot ''2.0'' now st)) else files d FALLBACK)
   \<and> files (snd (snd (snd (saveToStorage now st d)))) DATA_FILE
     = (if mkdir_ok d \<and> write_ok d DATA_FILE
        then Parsed (JsonObject (snapshot ''2.0'' now st)) else files d DATA_FILE)
   \<and> calls (saveMACWhitelist now st d)
     = calls d @ [Mkdir, WriteFile DATA_FILE (JsonObject (snapshot ''1.0'' now st)),
                  WriteFile BACKUP_FILE (JsonObject (snapshot ''1.0'' now st))]"
  by (auto simp: saveToStorage_eval save_targets_results save_targets_calls save_targets_files
      saveMACWhitelist_calls)

lemma persist_calls:
  "calls (snd (snd (persist v now st d))) =
     (case v of
        Basic \<Rightarrow> calls d @ [Mkdir, WriteFile DATA_FILE (JsonObject (snapshot ''1.0'' now st)),
                             WriteFile BACKUP_FILE (JsonObject (snapshot ''1.0'' now st))]
      | Enhanced \<Rightarrow> calls d @ Mkdir
          # (if mkdir_ok d then [WriteFile DATA_FILE (JsonObject (snapshot ''2.0'' now st))] else [])
          @ [WriteFile BACKUP (JsonObject (snapshot ''2.0'' now st)),
             WriteFile FALLBACK (JsonObject (snapshot ''2.0'' now st))])"
  by (cases v) (simp_all add: persist_def saveToStorage_eval save_targets_calls saveMACWhitelist_calls)

text \<open>
  Claim C4 as stated fails: on a file system where \<^verbatim>\<open>mkdir\<close> fails, \<^verbatim>\<open>saveToStorage\<close>
  attempts no write at the primary location; and \<^verbatim>\<open>saveMACWhitelist\<close> reports nothing,
  whether both locations accept the write or none does.
\<close>

theorem persist_skips_primary_write_counterexample:
  "calls (snd (snd (snd (saveToStorage 99 laptop_state readonly_cwd_disk))))
     = [Mkdir, WriteFile BACKUP (JsonObject (snapshot ''2.0'' 99 laptop_state)),
        WriteFile FALLBACK (JsonObject (snapshot ''2.0'' 99 laptop_state))]
   \<and> WriteFile DATA_FILE (JsonObject (snapshot ''2.0'' 99 laptop_state))
       \<notin> set (calls (snd (snd (snd (saveToStorage 99 laptop_state readonly_cwd_disk)))))
   \<and> fst (saveToStorage 99 laptop_state readonly_cwd_disk)
   \<and> fst (persist Basic 99 laptop_state blank_disk) = None
   \<and> fst (persist Basic 99 laptop_state dead_disk) = None"
  by (simp add: saveToStorage_eval save_targets_calls persist_def readonly_cwd_disk_def
      blank_disk_def)

lemma foldl_count_total:
  "total (foldl (count_entry now) s es) = total s"
  by (induction es arbitrary: s) (simp_all add: count_entry_def Let_def)

lemma foldl_count_totalAccesses:
  "totalAccesses (foldl (count_entry now) s es)
     = totalAccesses s + sum_list (map (\<lambda>e. or_zero (accessCount e)) es)"
  by (induction es arbitrary: s) (simp_all add: count_entry_def Let_def)

lemma foldl_count_neverUsed:
  "neverUsed (foldl (count_entry now) s es)
     = neverUsed s + int (length (filter (\<lambda>e. (case lastSeen e of None \<Rightarrow> 0 | Some t \<Rightarrow> t) = 0) es))"
  by (induction es arbitrary: s) (simp_all add: count_entry_def Let_def)

lemma foldl_count_activeLast24h:
  "activeLast24h (foldl (count_entry now) s es)
     = activeLast24h s + int (length (filter
         (\<lambda>e. (case lastSeen e of None \<Rightarrow> 0 | Some t \<Rightarrow> t) \<noteq> 0
              \<and> (case lastSeen e of None \<Rightarrow> 0 | Some t \<Rightarrow> t) > now - 24 * 60 * 60 * 1000) es))"
  by (induction es arbitrary: s) (simp_all add: count_entry_def Let_def)

lemma foldl_count_activeLast7d:
  "activeLast7d (foldl (count_entry now) s es)
     = activeLast7d s + int (length (filter
         (\<lambda>e. (case lastSeen e of None \<Rightarrow> 0 | Some t \<Rightarrow> t) \<noteq> 0
              \<and> (case lastSeen e of None \<Rightarrow> 0 | Some t \<Rightarrow> t) > now - 7 * 24 * 60 * 60 * 1000) es))"
  by (induction es arbitrary: s) (simp_all add: count_entry_def Let_def)

section \<open>Statistics in a persisted snapshot\<close>

text \<open>
  Claim C3, as amended. The snapshot that a persist writes holds the values of the
  store in their order and the statistics of the state as they stand: the persist does
  not recompute them. \<^verbatim>\<open>updateStatistics\<close>, which the listing calls, leaves the store as
  it is and sets the counters to the values derived from the entries, so a snapshot
  taken right after it is consistent: \<^verbatim>\<open>total\<close> is the number of entries,
  \<^verbatim>\<open>totalAccesses\<close> the sum of their access counts, \<^verbatim>\<open>neverUsed\<close> the number of entries
  whose last-seen time reads as 0, and the two activity counters the numbers of the
  other entries seen after now minus one day and now minus seven days.
\<close>

theorem persisted_statistics:
  "macAddresses (snapshot ver now st) = Some (map snd (macWhitelist st))
   \<and> statistics_block (snapshot ver now st) = Some (statistics st)
   \<and> calls (snd (snd (persist v now st d))) =
       (case v of
          Basic \<Rightarrow> calls d @ [Mkdir, WriteFile DATA_FILE (JsonObject (snapshot ''1.0'' now st)),
                               WriteFile BACKUP_FILE (JsonObject (snapshot ''1.0'' now st))]
        | Enhanced \<Rightarrow> calls d @ Mkdir
            # (if mkdir_ok d then [WriteFile DATA_FILE (JsonObject (snapshot ''2.0'' now st))] else [])
            @ [WriteFile BACKUP (JsonObject (snapshot ''2.0'' now st)),
               WriteFile FALLBACK (JsonObject (snapshot ''2.0'' now st))])
   \<and> macWhitelist (updateStatistics t st) = macWhitelist st
   \<and> macAddresses (snapshot ver now (updateStatistics t st)) = Some (map snd (macWhitelist st))
   \<and> map_option total (statistics_block (snapshot ver now (updateStatistics t st)))
       = Some (int (length (map snd (macWhitelist st))))
   \<and> map_option totalAccesses (statistics_block (snapshot ver now (updateStatistics t st)))
       = Some (sum_list (map (\<lambda>e. or_zero (accessCount e)) (map snd (macWhitelist st))))
   \<and> map_option neverUsed (statistics_block (snapshot ver now (updateStatistics t st)))
       = Some (int (length (filter (\<lambda>e. (case lastSeen e of None \<Rightarrow> 0 | Some t \<Rightarrow> t) = 0)
                 (map snd (macWhitelist st)))))
   \<and> map_option activeLast24h (statistics_block (snapshot ver now (updateStatistics t st)))
       = Some (int (length (filter
           (\<lambda>e. (case lastSeen e of None \<Rightarrow> 0 | Some t \<Rightarrow> t) \<noteq> 0
                \<and> (case lastSeen e of None \<Rightarrow> 0 | Some t \<Rightarrow> t) > t - 24 * 60 * 60 * 1000)
           (map snd (macWhitelist st)))))
   \<and> map_option activeLast7d (statistics_block (snapshot ver now (updateStatistics t st)))
       = Some (int (length (filter
           (\<lambda>e. (case lastSeen e of None \<Rightarrow> 0 | Some t \<Rightarrow> t) \<noteq> 0
                \<and> (case lastSeen e of None \<Rightarrow> 0 | Some t \<Rightarrow> t) > t - 7 * 24 * 60 * 60 * 1000)
           (map snd (macWhitelist st)))))"
  by (simp add: snapshot_def updateStatistics_def persist_calls size_of_def
      foldl_count_total foldl_count_totalAccesses foldl_count_neverUsed
      foldl_count_activeLast24h foldl_count_activeLast7d)

lemma lower_sample_upper: "''AA:BB:CC:DD:EE:FF'' \<noteq> []"
  by simp

lemma admin_key_valid: "validateAdminKey None admin_key"
  by (simp add: validateAdminKey_def admin_key_def or_else_def)

text \<open>
  Claim C3 as stated fails: adding one address to the empty store persists a snapshot
  with one entry and \<^verbatim>\<open>total\<close> 0.
\<close>

theorem stale_statistics_counterexample:
  "calls (snd (snd (handleAddMAC Enhanced None 99 (Some ''AA:BB:CC:DD:EE:FF'') (Some ''laptop'')
       (Some ''trial'') admin_key empty_state blank_disk)))
     = [Mkdir, WriteFile DATA_FILE (JsonObject stale_snapshot),
        WriteFile BACKUP (JsonObject stale_snapshot), WriteFile FALLBACK (JsonObject stale_snapshot)]
   \<and> map_option length (macAddresses stale_snapshot) = Some 1
   \<and> map_option total (statistics_block stale_snapshot) = Some 0
   \<and> map_option (\<lambda>s. total s = 1) (statistics_block stale_snapshot) = Some False"
proof -
  have a: "\<not> has (macWhitelist empty_state) (toLowerCase ''AA:BB:CC:DD:EE:FF'')"
    by (simp add: has_def empty_state_def)
  show ?thesis
    unfolding handleAddMAC_new [OF admin_key_valid lower_sample_upper a]
    by (simp add: Let_def persist_calls
          lower_samples snapshot_def stale_snapshot_def laptop_def empty_state_def blank_disk_def
          no_stats_def or_else_def includes_val_def validAccessTypes_def)
qed



section \<open>Load\<close>

lemma readFile_files [simp]: "files (snd (readFile l d)) = files d"
  by (simp add: readFile_def)

lemma readFile_fst [simp]: "fst (readFile l d) = files d l"
  by (simp add: readFile_def)

lemma readFile_calls [simp]: "calls (snd (readFile l d)) = calls d @ [ReadFile l]"
  by (simp add: readFile_def)

lemma structurally_valid_cases:
  "structurally_valid f = None \<or> (\<exists>dat es. f = Parsed (JsonObject dat) \<and> macAddresses dat = Some es
      \<and> structurally_valid f = Some es)"
  by (auto simp: structurally_valid_def split: file_content.splits json.splits)

lemma load_sources_store:
  "macWhitelist (fst (load_sources srcs now st d)) =
     (case List.map_filter (\<lambda>s. structurally_valid (files d (snd s))) srcs of
        [] \<Rightarrow> []
      | es # _ \<Rightarrow> populate es)"
proof (induction srcs arbitrary: d)
  case Nil
  show ?case by (simp add: List.map_filter_simps)
next
  case (Cons s srcs)
  show ?case
    using Cons [of "snd (readFile (snd s) d)"]
    by (auto simp: structurally_valid_def case_prod_beta Let_def
        split: file_content.splits json.splits option.splits)
qed

lemma load_sources_calls:
  "calls (snd (load_sources srcs now st d)) =
     calls d @ map ReadFile
       (take (Suc (length (takeWhile (\<lambda>l. structurally_valid (files d l) = None) (map snd srcs))))
          (map snd srcs))"
proof (induction srcs arbitrary: d)
  case Nil
  show ?case by simp
next
  case (Cons s srcs)
  show ?case
    using Cons [of "snd (readFile (snd s) d)"]
    by (auto simp: structurally_valid_def case_prod_beta Let_def
        split: file_content.splits json.splits option.splits)
qed

lemma populate_snoc: "populate (es @ [e]) = AList.update (macAddress e) e (populate es)"
  by (simp add: populate_def)

lemma populate_keys: "fst ` set (populate es) = macAddress ` set es"
  by (induction es rule: rev_induct) (auto simp: populate_snoc dom_update populate_def)

lemma update_fresh: "k \<notin> fst ` set al \<Longrightarrow> AList.update k v al = al @ [(k, v)]"
  by (induction al) auto

lemma populate_distinct:
  "distinct (map macAddress es) \<Longrightarrow> populate es = map (\<lambda>e. (macAddress e, e)) es"
proof (induction es rule: rev_induct)
  case Nil
  show ?case by (simp add: populate_def)
next
  case (snoc e es)
  from snoc.prems have d: "distinct (map macAddress es)" and n: "macAddress e \<notin> macAddress ` set es"
    by simp_all
  from n have "macAddress e \<notin> fst ` set (populate es)"
    by (simp only: populate_keys not_False_eq_True)
  then have "populate (es @ [e]) = populate es @ [(macAddress e, e)]"
    by (simp add: populate_snoc update_fresh)
  with snoc.IH [OF d] show ?case
    by simp
qed

lemma loadMACWhitelist_store:
  "macWhitelist (fst (loadMACWhitelist st d)) =
     (case files d DATA_FILE of
        Parsed j \<Rightarrow> (case structurally_valid (Parsed j) of None \<Rightarrow> [] | Some es \<Rightarrow> populate es)
      | _ \<Rightarrow>
          (case files d BACKUP_FILE of
             Parsed j \<Rightarrow> (case structurally_valid (Parsed j) of None \<Rightarrow> [] | Some es \<Rightarrow> populate es)
           | _ \<Rightarrow> []))"
  by (auto simp: loadMACWhitelist_def use_data_def structurally_valid_def ensureDataDirectory_def
      mkdir_def readFile_def Let_def populate_def
      split: file_content.splits json.splits option.splits)


text \<open>
  Claim C5, as amended. After \<^verbatim>\<open>loadFromStorage\<close> the store holds the entries of the
  first of its three locations, in order, that yields a structurally valid snapshot, and
  is empty when there is none; no location after that one is read. \<^verbatim>\<open>loadMACWhitelist\<close>
  takes the first of its two locations that can be read and parsed: the store holds the
  entries of that file when it is structurally valid and is empty otherwise, and is
  empty when neither file can be read and parsed. Both always return a store. Entries
  with pairwise different addresses are all in the store, in their order.
\<close>

theorem load_first_location:
  "macWhitelist (fst (loadFromStorage now st d)) =
     (case List.map_filter (\<lambda>s. structurally_valid (files d (snd s))) sources of
        [] \<Rightarrow> []
      | es # _ \<Rightarrow> populate es)
   \<and> calls (snd (loadFromStorage now st d)) =
       calls d @ map ReadFile
         (take (Suc (length (takeWhile (\<lambda>l. structurally_valid (files d l) = None) (map snd sources))))
            (map snd sources))
   \<and> macWhitelist (fst (loadMACWhitelist st d)) =
       (case files d DATA_FILE of
          Parsed j \<Rightarrow> (case structurally_valid (Parsed j) of None \<Rightarrow> [] | Some es \<Rightarrow> populate es)
        | _ \<Rightarrow>
            (case files d BACKUP_FILE of
               Parsed j \<Rightarrow> (case structurally_valid (Parsed j) of None \<Rightarrow> [] | Some es \<Rightarrow> populate es)
             | _ \<Rightarrow> []))
   \<and> (distinct (map macAddress es) \<longrightarrow> populate es = map (\<lambda>e. (macAddress e, e)) es)"
  by (simp add: loadFromStorage_def load_sources_store load_sources_calls loadMACWhitelist_store
      populate_distinct)

lemma shapeless_files:
  "files shapeless_main_disk DATA_FILE
     = Parsed (JsonObject \<lparr>macAddresses = None, statistics_block = None,
                           lastUpdated = None, version = None\<rparr>)"
  "files shapeless_main_disk BACKUP_FILE
     = Parsed (JsonObject \<lparr>macAddresses = Some [laptop], statistics_block = None,
                           lastUpdated = None, version = None\<rparr>)"
  "files shapeless_main_disk BACKUP
     = Parsed (JsonObject \<lparr>macAddresses = Some [laptop, server], statistics_block = None,
                           lastUpdated = None, version = None\<rparr>)"
  "files shapeless_main_disk FALLBACK
     = Parsed (JsonObject \<lparr>macAddresses = Some [server], statistics_block = None,
                           lastUpdated = None, version = None\<rparr>)"
  "calls shapeless_main_disk = []"
  by (simp_all add: shapeless_main_disk_def blank_disk_def)

theorem load_first_location_witness:
  "distinct (map macAddress [laptop, server])
   \<and> populate [laptop, server] = [(''aa:bb:cc:dd:ee:ff'', laptop), (''11:22:33:44:55:66'', server)]
   \<and> macWhitelist (fst (loadFromStorage 99 empty_state shapeless_main_disk))
       = [(''aa:bb:cc:dd:ee:ff'', laptop), (''11:22:33:44:55:66'', server)]
   \<and> calls (snd (loadFromStorage 99 empty_state shapeless_main_disk))
       = [ReadFile DATA_FILE, ReadFile BACKUP]"
proof -
  have dist: "distinct (map macAddress [laptop, server])"
    by (simp add: laptop_def server_def)
  note t = load_first_location [of 99 empty_state shapeless_main_disk "[laptop, server]"]
  from t dist have p: "populate [laptop, server]
      = [(''aa:bb:cc:dd:ee:ff'', laptop), (''11:22:33:44:55:66'', server)]"
    by (simp add: laptop_def server_def)
  from t have "macWhitelist (fst (loadFromStorage 99 empty_state shapeless_main_disk))
       = populate [laptop, server]"
    by (simp add: sources_def shapeless_files structurally_valid_def List.map_filter_simps)
  moreover from t have "calls (snd (loadFromStorage 99 empty_state shapeless_main_disk))
       = [ReadFile DATA_FILE, ReadFile BACKUP]"
    by (simp add: sources_def shapeless_files structurally_valid_def)
  ultimately show ?thesis
    using dist p by simp
qed

text \<open>
  Claim C5 as stated fails for \<^verbatim>\<open>loadMACWhitelist\<close>: a main file that parses but has no
  \<^verbatim>\<open>macAddresses\<close> collection is used, and the store is empty although the backup file
  holds a structurally valid snapshot with one entry.
\<close>

theorem load_shapeless_main_counterexample:
  "structurally_valid (files shapeless_main_disk DATA_FILE) = None
   \<and> structurally_valid (files shapeless_main_disk BACKUP_FILE) = Some [laptop]
   \<and> populate [laptop] = [(''aa:bb:cc:dd:ee:ff'', laptop)]
   \<and> macWhitelist (fst (loadMACWhitelist empty_state shapeless_main_disk)) = []"
  by (simp add: loadMACWhitelist_store shapeless_files structurally_valid_def populate_def laptop_def)

section \<open>bulk-add\<close>

lemma bulk_loop_append:
  "bulk_loop now (xs @ ys) wl rs n =
     (case bulk_loop now xs wl rs n of (wl1, rs1, n1) \<Rightarrow> bulk_loop now ys wl1 rs1 n1)"
  by (induction xs arbitrary: wl rs n) (simp_all add: Let_def)

lemma bulk_loop_results_length:
  "length (fst (snd (bulk_loop now xs wl rs n))) = length rs + length xs"
  by (induction xs arbitrary: wl rs n) (simp_all add: Let_def)

lemma update_absent_length:
  "\<not> has wl k \<Longrightarrow> length (AList.update k v wl) = Suc (length wl)"
  by (induction wl) (auto simp: has_def split: option.splits if_splits)

lemma bulk_loop_single:
  "bulk_loop now [md] wl rs n =
     (if falsy (item_mac md)
      then (wl, rs @ [\<lparr>item_macAddress = ''invalid'', item_success = False,
                       item_message = ''Invalid MAC address''\<rparr>], n)
      else if has wl (toLowerCase (or_else (item_mac md) []))
      then (wl, rs @ [\<lparr>item_macAddress = toLowerCase (or_else (item_mac md) []), item_success = False,
                       item_message = ''Already exists''\<rparr>], n)
      else (AList.update (toLowerCase (or_else (item_mac md) []))
              \<lparr>macAddress = toLowerCase (or_else (item_mac md) []),
               description = or_else (item_description md) ''Bulk added'',
               accessType = (if includes_val validAccessTypes (item_accessType md)
                             then item_accessType md else Some ''trial''),
               addedAt = now, updatedAt = None, lastSeen = None, accessCount = Some 0,
               lastDevice = None\<rparr> wl,
            rs @ [\<lparr>item_macAddress = toLowerCase (or_else (item_mac md) []), item_success = True,
                   item_message = ''Added successfully''\<rparr>], n + 1))"
  by (auto simp: Let_def falsy_def or_else_def split: option.splits)

lemma bulk_loop_Cons:
  "bulk_loop now (md # xs) wl rs n =
     (case bulk_loop now [md] wl rs n of (wl1, rs1, n1) \<Rightarrow> bulk_loop now xs wl1 rs1 n1)"
  using bulk_loop_append [of now "[md]" xs wl rs n] by simp

lemma bulk_loop_store_length:
  "length (fst (bulk_loop now xs wl rs n)) + n = length wl + snd (snd (bulk_loop now xs wl rs n))"
proof (induction xs arbitrary: wl rs n)
  case Nil
  show ?case by simp
next
  case (Cons md xs)
  let ?k = "toLowerCase (or_else (item_mac md) [])"
  show ?case
  proof (cases "falsy (item_mac md) \<or> has wl ?k")
    case True
    then show ?thesis
      unfolding bulk_loop_Cons [of now md xs] bulk_loop_single
      by (auto simp: Cons.IH)
  next
    case False
    then have len: "length (AList.update ?k e wl) = Suc (length wl)" for e
      by (simp add: update_absent_length)
    from False show ?thesis
      unfolding bulk_loop_Cons [of now md xs] bulk_loop_single
      using Cons.IH [of "AList.update ?k _ wl" _ "n + 1"]
      by (simp add: len)
  qed
qed

lemma has_update: "has (AList.update k v wl) k' = (k' = k \<or> has wl k')"
  by (simp add: has_iff update_conv')

lemma bulk_loop_same_address:
  assumes "m1 \<noteq> []" and "m2 \<noteq> []" and "toLowerCase m2 = toLowerCase m1"
    and "\<not> has wl (toLowerCase m1)"
  shows "bulk_loop now [\<lparr>item_mac = Some m1, item_description = d1, item_accessType = a1\<rparr>,
                        \<lparr>item_mac = Some m2, item_description = d2, item_accessType = a2\<rparr>] wl [] 0 =
     (AList.update (toLowerCase m1)
        \<lparr>macAddress = toLowerCase m1,
         description = or_else d1 ''Bulk added'',
         accessType = (if includes_val validAccessTypes a1 then a1 else Some ''trial''),
         addedAt = now, updatedAt = None, lastSeen = None, accessCount = Some 0,
         lastDevice = None\<rparr> wl,
      [\<lparr>item_macAddress = toLowerCase m1, item_success = True, item_message = ''Added successfully''\<rparr>,
       \<lparr>item_macAddress = toLowerCase m1, item_success = False, item_message = ''Already exists''\<rparr>],
      1)"
  using assms by (simp add: Let_def has_update)

lemma handleBulkAdd_eval:
  assumes "validateAdminKey env_key adminKey"
  shows "handleBulkAdd v env_key now (Some mds) adminKey st d =
     (let r = bulk_loop now mds (macWhitelist st) [] 0;
          st1 = st\<lparr>macWhitelist := fst r\<rparr>;
          p = (if snd (snd r) > 0 then persist v now st1 d
               else (case v of Basic \<Rightarrow> None | Enhanced \<Rightarrow> Some False, st1, d))
      in (\<lparr>status = 200, success = True,
           body = Some (Bulk (fst (snd r)) (length mds) (snd (snd r))),
           persistent = fst p\<rparr>, snd p))"
  using assms by (simp add: handleBulkAdd_def Let_def case_prod_beta)

lemma db_bulk_loop_append:
  "db_bulk_loop now uuid (xs @ ys) m rs a s =
     (case db_bulk_loop now uuid xs m rs a s of
        None \<Rightarrow> None
      | Some (m1, rs1, a1, s1) \<Rightarrow> db_bulk_loop now uuid ys m1 rs1 a1 s1)"
  by (induction xs arbitrary: m rs a s) (simp_all add: Let_def split: option.splits)

lemma writeDatabase_writes:
  "macFile_writes (snd (writeDatabase now dat fs))
     = macFile_writes fs @ [dat\<lparr>db_stats := (db_stats dat)\<lparr>db_lastUpdated := now,
                                  totalDevices := size_of (db_macAddresses dat)\<rparr>\<rparr>]"
  by (simp add: writeDatabase_def Let_def)

lemma bulkAddMACs_writes:
  assumes "db_bulk_loop now uuid mds (db_macAddresses (readDatabase now fs)) [] 0 0
             = Some (m, rs, a, s)"
  shows "macFile_writes (snd (bulkAddMACs now uuid mds fs))
     = macFile_writes fs @ [(readDatabase now fs)
          \<lparr>db_macAddresses := m,
           db_stats := (db_stats (readDatabase now fs))\<lparr>db_lastUpdated := now, totalDevices := size_of m\<rparr>\<rparr>]"
  using assms
  by (simp add: bulkAddMACs_def Let_def case_prod_beta writeDatabase_writes split: if_splits)


lemma bulk_loop_last:
  "fst (snd (bulk_loop now (xs @ [md]) wl [] 0)) \<noteq> []
   \<and> item_success (last (fst (snd (bulk_loop now (xs @ [md]) wl [] 0))))
     = (\<not> falsy (item_mac md)
        \<and> \<not> has (fst (bulk_loop now xs wl [] 0)) (toLowerCase (or_else (item_mac md) [])))"
proof -
  let ?r = "bulk_loop now xs wl [] 0"
  have "bulk_loop now (xs @ [md]) wl [] 0 = bulk_loop now [md] (fst ?r) (fst (snd ?r)) (snd (snd ?r))"
    by (simp only: bulk_loop_append case_prod_beta)
  then show ?thesis
    unfolding bulk_loop_single by simp
qed


section \<open>update-access and the creation time\<close>

lemma handleUpdateAccess_found:
  assumes "validateAdminKey env_key adminKey"
    and "mac \<noteq> []"
    and "includes_val validAccessTypes (Some t)"
    and "map_of (macWhitelist st) (toLowerCase mac) = Some e"
  shows "handleUpdateAccess v env_key now (Some mac) (Some t) adminKey st d =
     (let e' = e\<lparr>accessType := Some t, updatedAt := Some now\<rparr>;
          st1 = st\<lparr>macWhitelist := AList.update (toLowerCase mac) e' (macWhitelist st)\<rparr>
      in (\<lparr>status = 200, success = True, body = Some (Entry e'),
           persistent = fst (persist v now st1 d)\<rparr>, snd (persist v now st1 d)))"
proof -
  from assms(3) have "\<not> falsy (Some t)"
    by (rule valid_not_falsy)
  then have "t \<noteq> []"
    by simp
  with assms show ?thesis
    by (simp add: handleUpdateAccess_def Let_def case_prod_beta)
qed

lemma update_present_keys:
  "map_of al k \<noteq> None \<Longrightarrow> map fst (AList.update k v al) = map fst al"
  by (induction al) auto

lemma keeps_addedAt_refl [simp]: "keeps_addedAt wl wl"
  by (simp add: keeps_addedAt_def)

lemma keeps_addedAt_update:
  "(\<And>e. map_of wl k = Some e \<Longrightarrow> addedAt e' = addedAt e) \<Longrightarrow> keeps_addedAt wl (AList.update k e' wl)"
  by (auto simp: keeps_addedAt_def update_conv' split: if_splits)

lemma keeps_addedAt_delete: "keeps_addedAt wl (AList.delete k wl)"
  by (auto simp: keeps_addedAt_def delete_conv' split: if_splits)

lemma bulk_loop_preserves:
  "map_of wl k = Some e \<Longrightarrow> map_of (fst (bulk_loop now xs wl rs n)) k = Some e"
proof (induction xs arbitrary: wl rs n)
  case Nil
  then show ?case by simp
next
  case (Cons md xs)
  let ?k = "toLowerCase (or_else (item_mac md) [])"
  show ?case
  proof (cases "falsy (item_mac md) \<or> has wl ?k")
    case True
    then show ?thesis
      unfolding bulk_loop_Cons [of now md xs] bulk_loop_single
      using Cons by auto
  next
    case False
    then have "?k \<noteq> k"
      using Cons.prems by (auto simp: has_iff)
    then have "map_of (AList.update ?k e2 wl) k = Some e" for e2
      using Cons.prems by (simp add: update_conv')
    with False show ?thesis
      unfolding bulk_loop_Cons [of now md xs] bulk_loop_single
      by (simp add: Cons.IH)
  qed
qed

lemma find_authorized_Some:
  "find_authorized wl ms = Some (k, e) \<Longrightarrow> map_of wl k = Some e"
  by (induction ms) (auto simp: Let_def split: if_splits)

lemma handleCheckAccess_keeps:
  "keeps_addedAt (macWhitelist st) (macWhitelist (fst (snd (handleCheckAccess v now macs devInfo st d))))"
proof (cases "\<exists>ms k e. macs = Some ms \<and> ms \<noteq> [] \<and> find_authorized (macWhitelist st) ms = Some (k, e)")
  case True
  then obtain ms k e where m: "macs = Some ms" "ms \<noteq> []"
    and f: "find_authorized (macWhitelist st) ms = Some (k, e)"
    by blast
  from f have g: "map_of (macWhitelist st) k = Some e"
    by (rule find_authorized_Some)
  show ?thesis
    using m f g
    by (auto simp: handleCheckAccess_def Let_def case_prod_beta
        intro!: keeps_addedAt_update split: option.splits)
next
  case False
  then show ?thesis
    by (auto simp: handleCheckAccess_def Let_def split: option.splits)
qed

lemma handleAddMAC_keeps:
  "keeps_addedAt (macWhitelist st)
     (macWhitelist (fst (snd (handleAddMAC v env_key now mac descr accType adminKey st d))))"
  by (auto simp: handleAddMAC_def Let_def case_prod_beta has_iff intro!: keeps_addedAt_update)

lemma handleUpdateAccess_keeps:
  "keeps_addedAt (macWhitelist st)
     (macWhitelist (fst (snd (handleUpdateAccess v env_key now mac accType adminKey st d))))"
  by (auto simp: handleUpdateAccess_def Let_def case_prod_beta
      intro!: keeps_addedAt_update split: option.splits)

lemma handleRemoveMAC_keeps:
  "keeps_addedAt (macWhitelist st)
     (macWhitelist (fst (snd (handleRemoveMAC v env_key now mac adminKey st d))))"
  by (auto simp: handleRemoveMAC_def Let_def case_prod_beta intro!: keeps_addedAt_delete)

lemma handleListMACs_keeps:
  "keeps_addedAt (macWhitelist st)
     (macWhitelist (fst (snd (handleListMACs env_key now adminKey st d))))"
  by (simp add: handleListMACs_def Let_def updateStatistics_def)

lemma handleBulkAdd_keeps:
  "keeps_addedAt (macWhitelist st)
     (macWhitelist (fst (snd (handleBulkAdd v env_key now items adminKey st d))))"
proof -
  have "keeps_addedAt wl (fst (bulk_loop now xs wl rs n))" for wl xs rs n
    unfolding keeps_addedAt_def
  proof (intro allI impI)
    fix k e e'
    assume "map_of wl k = Some e" and e': "map_of (fst (bulk_loop now xs wl rs n)) k = Some e'"
    then have "map_of (fst (bulk_loop now xs wl rs n)) k = Some e"
      by (simp add: bulk_loop_preserves)
    with e' show "addedAt e' = addedAt e"
      by simp
  qed
  then show ?thesis
    by (auto simp: handleBulkAdd_def Let_def case_prod_beta split: option.splits)
qed

lemma dispatch_keeps:
  "keeps_addedAt (macWhitelist st) (macWhitelist (fst (snd (dispatch v env_key now req st d))))"
  by (cases req)
    (simp_all add: dispatch_def handleCheckAccess_keeps handleAddMAC_keeps handleUpdateAccess_keeps
      handleRemoveMAC_keeps handleListMACs_keeps handleBulkAdd_keeps)


lemma readDatabase_entries:
  "db_macAddresses (readDatabase now fs)
     = (case macFile fs of None \<Rightarrow> [] | Some dat \<Rightarrow> db_macAddresses dat)"
  by (simp add: readDatabase_def split: option.splits)

lemma writeDatabase_macFile:
  "macFile (snd (writeDatabase now dat fs)) =
     (if macFile_writable fs
      then Some (dat\<lparr>db_stats := (db_stats dat)\<lparr>db_lastUpdated := now,
                                   totalDevices := size_of (db_macAddresses dat)\<rparr>\<rparr>)
      else macFile fs)"
  by (simp add: writeDatabase_def Let_def)

lemma writeDatabase_fst: "fst (writeDatabase now dat fs) = macFile_writable fs"
  by (simp add: writeDatabase_def Let_def)

lemma db_keeps_addedAt_refl [simp]: "db_keeps_addedAt m m"
  by (simp add: db_keeps_addedAt_def)

lemma db_keeps_addedAt_Nil [simp]: "db_keeps_addedAt [] m"
  by (simp add: db_keeps_addedAt_def)

lemma db_keeps_addedAt_update:
  "(\<And>e. map_of m k = Some e \<Longrightarrow> db_addedAt e' = db_addedAt e)
     \<Longrightarrow> db_keeps_addedAt m (AList.update k e' m)"
  by (auto simp: db_keeps_addedAt_def update_conv' split: if_splits)

lemma db_keeps_addedAt_delete: "db_keeps_addedAt m (AList.delete k m)"
  by (auto simp: db_keeps_addedAt_def delete_conv' split: if_splits)

lemma db_find_Some: "db_find m ms = Some (k, e) \<Longrightarrow> map_of m k = Some e"
  by (induction ms) (auto simp: Let_def split: option.splits)

lemma db_bulk_loop_preserves:
  "db_bulk_loop now uuid xs m rs a s = Some (m', rs', a', s') \<Longrightarrow> map_of m k = Some e
     \<Longrightarrow> map_of m' k = Some e"
proof (induction xs arbitrary: m rs a s)
  case Nil
  then show ?case by simp
next
  case (Cons x xs)
  from Cons.prems(1) obtain mac where mac: "item_mac x = Some mac"
    by (cases "item_mac x") simp_all
  show ?case
  proof (cases "has m (toLowerCase mac)")
    case True
    with Cons.prems mac show ?thesis
      by (auto simp: Let_def dest: Cons.IH)
  next
    case False
    then have "toLowerCase mac \<noteq> k"
      using Cons.prems(2) by (auto simp: has_iff)
    then have "map_of (AList.update (toLowerCase mac) e2 m) k = Some e" for e2
      using Cons.prems(2) by (simp add: update_conv')
    with Cons.prems(1) mac False show ?thesis
      by (auto simp: Let_def dest: Cons.IH)
  qed
qed

lemma checkAccess_db_keeps:
  "db_keeps_addedAt (db_macAddresses (readDatabase now fs))
     (db_macAddresses (readDatabase now' (snd (checkAccess now ms devInfo fs))))"
proof (cases "db_find (db_macAddresses (readDatabase now fs)) ms")
  case None
  then show ?thesis
    by (simp add: checkAccess_def Let_def readDatabase_entries [of now'] readDatabase_entries [of now])
next
  case (Some p)
  obtain k e where p: "p = (k, e)"
    by (cases p)
  from Some p have "map_of (db_macAddresses (readDatabase now fs)) k = Some e"
    by (simp add: db_find_Some)
  with Some p show ?thesis
    by (cases devInfo)
      (auto simp: checkAccess_def Let_def case_prod_beta writeDatabase_macFile
        readDatabase_entries [of now'] readDatabase_entries [of now]
        intro!: db_keeps_addedAt_update split: option.splits)
qed

lemma addMACAddress_db_keeps:
  "db_keeps_addedAt (db_macAddresses (readDatabase now fs))
     (db_macAddresses (readDatabase now' (snd (addMACAddress now uuid mac descr accType fs))))"
  by (auto simp: addMACAddress_def Let_def case_prod_beta writeDatabase_macFile has_iff
      readDatabase_entries [of now'] readDatabase_entries [of now]
      intro!: db_keeps_addedAt_update split: option.splits)

lemma updateMACAccess_db_keeps:
  "db_keeps_addedAt (db_macAddresses (readDatabase now fs))
     (db_macAddresses (readDatabase now' (snd (updateMACAccess now mac t fs))))"
  by (auto simp: updateMACAccess_def Let_def case_prod_beta writeDatabase_macFile
      readDatabase_entries [of now'] readDatabase_entries [of now]
      intro!: db_keeps_addedAt_update split: option.splits)

lemma removeMACAddress_db_keeps:
  "db_keeps_addedAt (db_macAddresses (readDatabase now fs))
     (db_macAddresses (readDatabase now' (snd (removeMACAddress now mac fs))))"
  by (auto simp: removeMACAddress_def Let_def case_prod_beta writeDatabase_macFile
      readDatabase_entries [of now'] readDatabase_entries [of now]
      intro!: db_keeps_addedAt_delete split: option.splits)

lemma bulkAddMACs_db_keeps:
  "db_keeps_addedAt (db_macAddresses (readDatabase now fs))
     (db_macAddresses (readDatabase now' (snd (bulkAddMACs now uuid mds fs))))"
proof (cases "db_bulk_loop now uuid mds (db_macAddresses (readDatabase now fs)) [] 0 0")
  case None
  then show ?thesis
    by (simp add: bulkAddMACs_def Let_def readDatabase_entries [of now'] readDatabase_entries [of now])
next
  case (Some r)
  obtain m rs a s where r: "r = (m, rs, a, s)"
    by (cases r)
  have k: "db_keeps_addedAt (db_macAddresses (readDatabase now fs)) m"
    unfolding db_keeps_addedAt_def
  proof (intro allI impI)
    fix k e e'
    assume "map_of (db_macAddresses (readDatabase now fs)) k = Some e" and e': "map_of m k = Some e'"
    with Some r have "map_of m k = Some e"
      by (simp add: db_bulk_loop_preserves)
    with e' show "db_addedAt e' = db_addedAt e"
      by simp
  qed
  have same: "db_macAddresses (readDatabase now' fs) = db_macAddresses (readDatabase now fs)"
    by (simp add: readDatabase_entries)
  show ?thesis
  proof (cases "macFile_writable fs")
    case True
    with Some r k show ?thesis
      by (simp add: bulkAddMACs_def Let_def case_prod_beta writeDatabase_macFile writeDatabase_fst
          readDatabase_entries [of now'])
  next
    case False
    with Some r same show ?thesis
      by (simp add: bulkAddMACs_def Let_def case_prod_beta writeDatabase_macFile writeDatabase_fst
          readDatabase_def)
  qed
qed

lemma updateMACAccess_found:
  assumes "map_of (db_macAddresses (readDatabase now fs)) (toLowerCase mac) = Some e0"
  shows "macFile (snd (updateMACAccess now mac t fs)) =
     (if macFile_writable fs
      then Some ((readDatabase now fs)
             \<lparr>db_macAddresses :=
                AList.update (toLowerCase mac) (e0\<lparr>db_accessType := Some t, db_updatedAt := Some now\<rparr>)
                  (db_macAddresses (readDatabase now fs)),
              db_stats := (db_stats (readDatabase now fs))
                \<lparr>db_lastUpdated := now,
                 totalDevices := size_of (AList.update (toLowerCase mac)
                    (e0\<lparr>db_accessType := Some t, db_updatedAt := Some now\<rparr>)
                    (db_macAddresses (readDatabase now fs)))\<rparr>\<rparr>)
      else macFile fs)"
    and "db_success (fst (updateMACAccess now mac t fs)) = macFile_writable fs"
  using assms
  by (simp_all add: updateMACAccess_def Let_def case_prod_beta writeDatabase_macFile writeDatabase_fst)


text \<open>
  Claim C8. An update-access request with a valid admin key, a valid tier and the
  address of an entry \<^term>\<open>e\<close> of the store is answered 200, and the store afterwards is
  the store before with \<^term>\<open>e\<close> replaced, at its place, by \<^term>\<open>e\<close> with \<^verbatim>\<open>accessType\<close> set
  to the tier and \<^verbatim>\<open>updatedAt\<close> set to now: the address, description, creation time, last
  seen time, access count and last device of the entry are the ones it had, every other
  key holds what it held, and the statistics are untouched. \<^verbatim>\<open>updateMACAccess\<close> of the
  database class writes the same replacement when the file can be written and leaves
  the file as it was otherwise. No request of the two handlers and no method of the
  database class changes the creation time of an entry that is there before and after.
\<close>

theorem update_access_frame:
  assumes "validateAdminKey env_key adminKey"
    and "mac \<noteq> []"
    and "includes_val validAccessTypes (Some t)"
    and "map_of (macWhitelist st) (toLowerCase mac) = Some e"
  shows
    "status (fst (handleUpdateAccess v env_key now (Some mac) (Some t) adminKey st d)) = 200
     \<and> macWhitelist (fst (snd (handleUpdateAccess v env_key now (Some mac) (Some t) adminKey st d)))
         = AList.update (toLowerCase mac) (e\<lparr>accessType := Some t, updatedAt := Some now\<rparr>)
             (macWhitelist st)
     \<and> map_of (macWhitelist (fst (snd (handleUpdateAccess v env_key now (Some mac) (Some t) adminKey st d))))
           (toLowerCase mac)
         = Some (e\<lparr>accessType := Some t, updatedAt := Some now\<rparr>)
     \<and> map_option (\<lambda>x. (macAddress x, description x, addedAt x, lastSeen x, accessCount x, lastDevice x))
           (map_of (macWhitelist (fst (snd (handleUpdateAccess v env_key now (Some mac) (Some t) adminKey st d))))
              (toLowerCase mac))
         = Some (macAddress e, description e, addedAt e, lastSeen e, accessCount e, lastDevice e)
     \<and> (\<forall>k. k \<noteq> toLowerCase mac \<longrightarrow>
           map_of (macWhitelist (fst (snd (handleUpdateAccess v env_key now (Some mac) (Some t) adminKey st d)))) k
             = map_of (macWhitelist st) k)
     \<and> map fst (macWhitelist (fst (snd (handleUpdateAccess v env_key now (Some mac) (Some t) adminKey st d))))
         = map fst (macWhitelist st)
     \<and> statistics (fst (snd (handleUpdateAccess v env_key now (Some mac) (Some t) adminKey st d)))
         = statistics st
     \<and> keeps_addedAt (macWhitelist st) (macWhitelist (fst (snd (dispatch v env_key now req st d))))
     \<and> (map_of (db_macAddresses (readDatabase now fs)) (toLowerCase mac) = Some e0 \<longrightarrow>
          db_success (fst (updateMACAccess now mac t fs)) = macFile_writable fs
        \<and> macFile (snd (updateMACAccess now mac t fs)) =
           (if macFile_writable fs
            then Some ((readDatabase now fs)
                   \<lparr>db_macAddresses :=
                      AList.update (toLowerCase mac)
                        (e0\<lparr>db_accessType := Some t, db_updatedAt := Some now\<rparr>)
                        (db_macAddresses (readDatabase now fs)),
                    db_stats := (db_stats (readDatabase now fs))
                      \<lparr>db_lastUpdated := now,
                       totalDevices := size_of (AList.update (toLowerCase mac)
                          (e0\<lparr>db_accessType := Some t, db_updatedAt := Some now\<rparr>)
                          (db_macAddresses (readDatabase now fs)))\<rparr>\<rparr>)
            else macFile fs))
     \<and> db_keeps_addedAt (db_macAddresses (readDatabase now fs))
          (db_macAddresses (readDatabase now' (snd (updateMACAccess now mac t fs))))
     \<and> db_keeps_addedAt (db_macAddresses (readDatabase now fs))
          (db_macAddresses (readDatabase now' (snd (checkAccess now ms devInfo fs))))
     \<and> db_keeps_addedAt (db_macAddresses (readDatabase now fs))
          (db_macAddresses (readDatabase now' (snd (addMACAddress now uuid mac descr accType fs))))
     \<and> db_keeps_addedAt (db_macAddresses (readDatabase now fs))
          (db_macAddresses (readDatabase now' (snd (removeMACAddress now mac fs))))
     \<and> db_keeps_addedAt (db_macAddresses (readDatabase now fs))
          (db_macAddresses (readDatabase now' (snd (bulkAddMACs now uuids mds fs))))"
proof -
  note eq = handleUpdateAccess_found [OF assms, of v now d]
  have present: "map_of (macWhitelist st) (toLowerCase mac) \<noteq> None"
    using assms(4) by simp
  have 1: "status (fst (handleUpdateAccess v env_key now (Some mac) (Some t) adminKey st d)) = 200"
    by (simp add: eq Let_def)
  have 2: "macWhitelist (fst (snd (handleUpdateAccess v env_key now (Some mac) (Some t) adminKey st d)))
         = AList.update (toLowerCase mac) (e\<lparr>accessType := Some t, updatedAt := Some now\<rparr>)
             (macWhitelist st)"
    by (simp add: eq Let_def)
  have 3: "statistics (fst (snd (handleUpdateAccess v env_key now (Some mac) (Some t) adminKey st d)))
         = statistics st"
    by (simp add: eq Let_def)
  have 4: "map fst (AList.update (toLowerCase mac) (e\<lparr>accessType := Some t, updatedAt := Some now\<rparr>)
             (macWhitelist st)) = map fst (macWhitelist st)"
    using present by (rule update_present_keys)
  have 5: "map_of (db_macAddresses (readDatabase now fs)) (toLowerCase mac) = Some e0 \<longrightarrow>
          db_success (fst (updateMACAccess now mac t fs)) = macFile_writable fs
        \<and> macFile (snd (updateMACAccess now mac t fs)) =
           (if macFile_writable fs
            then Some ((readDatabase now fs)
                   \<lparr>db_macAddresses :=
                      AList.update (toLowerCase mac)
                        (e0\<lparr>db_accessType := Some t, db_updatedAt := Some now\<rparr>)
                        (db_macAddresses (readDatabase now fs)),
                    db_stats := (db_stats (readDatabase now fs))
                      \<lparr>db_lastUpdated := now,
                       totalDevices := size_of (AList.update (toLowerCase mac)
                          (e0\<lparr>db_accessType := Some t, db_updatedAt := Some now\<rparr>)
                          (db_macAddresses (readDatabase now fs)))\<rparr>\<rparr>)
            else macFile fs)"
    using updateMACAccess_found [of now fs mac e0 t] by blast
  show ?thesis
    unfolding 2
    by (intro conjI)
      (simp_all add: 1 2 3 4 5 update_conv' dispatch_keeps updateMACAccess_db_keeps
        checkAccess_db_keeps addMACAddress_db_keeps removeMACAddress_db_keeps bulkAddMACs_db_keeps)
qed

theorem update_access_frame_witness:
  "validateAdminKey None admin_key
   \<and> ''AA:BB:CC:DD:EE:FF'' \<noteq> []
   \<and> includes_val validAccessTypes (Some ''admin'')
   \<and> map_of (macWhitelist both_state) (toLowerCase ''AA:BB:CC:DD:EE:FF'') = Some laptop
   \<and> macWhitelist (fst (snd (handleUpdateAccess Basic None 99 (Some ''AA:BB:CC:DD:EE:FF'')
        (Some ''admin'') admin_key both_state blank_disk)))
       = [(''11:22:33:44:55:66'', server),
          (''aa:bb:cc:dd:ee:ff'', laptop\<lparr>accessType := Some ''admin'', updatedAt := Some 99\<rparr>)]
   \<and> macFile_writable laptop_db
   \<and> db_success (fst (updateMACAccess 99 ''AA:BB:CC:DD:EE:FF'' ''admin'' laptop_db))"
proof -
  have i: "includes_val validAccessTypes (Some ''admin'')"
    by (simp add: includes_val_def validAccessTypes_def)
  have m: "map_of (macWhitelist both_state) (toLowerCase ''AA:BB:CC:DD:EE:FF'') = Some laptop"
    by (simp add: lower_samples both_state_def empty_state_def)
  obtain e0 where e0: "map_of (db_macAddresses (readDatabase 99 laptop_db))
      (toLowerCase ''AA:BB:CC:DD:EE:FF'') = Some e0"
    by (simp add: lower_samples laptop_db_def readDatabase_def)
  have w: "macFile_writable laptop_db"
    by (simp add: laptop_db_def)
  note t = update_access_frame [OF admin_key_valid lower_sample_upper i m,
      of Basic 99 blank_disk OtherAction laptop_db e0]
  from t have "macWhitelist (fst (snd (handleUpdateAccess Basic None 99 (Some ''AA:BB:CC:DD:EE:FF'')
        (Some ''admin'') admin_key both_state blank_disk)))
       = AList.update (toLowerCase ''AA:BB:CC:DD:EE:FF'')
           (laptop\<lparr>accessType := Some ''admin'', updatedAt := Some 99\<rparr>) (macWhitelist both_state)"
    by blast
  then have p1: "macWhitelist (fst (snd (handleUpdateAccess Basic None 99 (Some ''AA:BB:CC:DD:EE:FF'')
        (Some ''admin'') admin_key both_state blank_disk)))
       = [(''11:22:33:44:55:66'', server),
          (''aa:bb:cc:dd:ee:ff'', laptop\<lparr>accessType := Some ''admin'', updatedAt := Some 99\<rparr>)]"
    by (simp add: lower_samples both_state_def empty_state_def)
  from t e0 w have p2: "db_success (fst (updateMACAccess 99 ''AA:BB:CC:DD:EE:FF'' ''admin'' laptop_db))"
    by blast
  from admin_key_valid lower_sample_upper i m w p1 p2 show ?thesis
    by blast
qed

section \<open>Two requests in a row\<close>


lemma well_keyed_Nil [simp]: "well_keyed []"
  by (simp add: well_keyed_def)




lemma initializeStorage_initialized [simp]:
  "initialized (fst (initializeStorage now st d))"
  by (simp add: initializeStorage_def case_prod_beta)


lemma persist_initialized [simp]:
  "initialized (fst (snd (persist v now st d))) = initialized st"
  by (cases v) (simp_all add: persist_state)

lemma loadMACWhitelist_write_ok [simp]:
  "write_ok (snd (loadMACWhitelist st d)) = write_ok d"
  by (auto simp: loadMACWhitelist_def ensureDataDirectory_def mkdir_def readFile_def writeFile_def
      Let_def split: file_content.splits)








section \<open>check-access: bookkeeping on a match\<close>





section \<open>bulk-add: items, records and the write at the end\<close>

lemma db_bulk_loop_single:
  "db_bulk_loop now uuid [md] m rs a s =
     (case item_mac md of
        None \<Rightarrow> None
      | Some mac \<Rightarrow>
          Some (if has m (toLowerCase mac)
                then (m, rs @ [\<lparr>bs_macAddress = toLowerCase mac, bs_status = ''skipped'',
                                 bs_detail = ''Already exists''\<rparr>], a, s + 1)
                else (AList.update (toLowerCase mac)
                        \<lparr>db_description = or_else (item_description md) ''Bulk added device'',
                         db_accessType = Some (or_else (item_accessType md) ''trial''),
                         db_addedAt = now, db_updatedAt = None, db_lastSeen = None,
                         db_accessCount = Some 0, db_lastDevice = None, db_id = uuid a\<rparr> m,
                      rs @ [\<lparr>bs_macAddress = toLowerCase mac, bs_status = ''added'',
                             bs_detail = or_else (item_accessType md) ''trial''\<rparr>], a + 1, s)))"
  by (simp add: Let_def split: option.splits)

lemma db_bulk_loop_snoc:
  assumes "db_bulk_loop now uuid xs m0 [] 0 0 = Some (mx, rx, ax, sx)"
    and "item_mac md = Some mac"
  shows "db_bulk_loop now uuid (xs @ [md]) m0 [] 0 0 =
     Some (if has mx (toLowerCase mac)
           then (mx, rx @ [\<lparr>bs_macAddress = toLowerCase mac, bs_status = ''skipped'',
                             bs_detail = ''Already exists''\<rparr>], ax, sx + 1)
           else (AList.update (toLowerCase mac)
                   \<lparr>db_description = or_else (item_description md) ''Bulk added device'',
                    db_accessType = Some (or_else (item_accessType md) ''trial''),
                    db_addedAt = now, db_updatedAt = None, db_lastSeen = None,
                    db_accessCount = Some 0, db_lastDevice = None, db_id = uuid ax\<rparr> mx,
                 rx @ [\<lparr>bs_macAddress = toLowerCase mac, bs_status = ''added'',
                        bs_detail = or_else (item_accessType md) ''trial''\<rparr>], ax + 1, sx))"
proof -
  have "db_bulk_loop now uuid (xs @ [md]) m0 [] 0 0 = db_bulk_loop now uuid [md] mx rx ax sx"
    by (simp only: db_bulk_loop_append assms(1) option.case prod.case)
  then show ?thesis
    unfolding db_bulk_loop_single by (simp add: assms(2))
qed

lemma db_bulk_loop_None:
  "(db_bulk_loop now uuid xs m rs a s = None) = (\<exists>md\<in>set xs. item_mac md = None)"
  by (induction xs arbitrary: m rs a s) (auto simp: Let_def split: option.splits)

lemma db_bulk_loop_counts:
  "db_bulk_loop now uuid xs m rs a s = Some (m', rs', a', s') \<Longrightarrow>
     length rs' = length rs + length xs
     \<and> a' + s' = a + s + length xs
     \<and> length m' + a = length m + a'
     \<and> map bs_macAddress rs'
         = map bs_macAddress rs @ map (\<lambda>md. toLowerCase (or_else (item_mac md) [])) xs"
proof (induction xs arbitrary: m rs a s)
  case Nil
  then show ?case by simp
next
  case (Cons x xs)
  from Cons.prems obtain mac where mac: "item_mac x = Some mac"
    by (cases "item_mac x") simp_all
  have oe: "or_else (item_mac x) [] = mac"
    by (simp add: mac or_else_def)
  show ?case
  proof (cases "has m (toLowerCase mac)")
    case True
    with Cons.prems mac
    have "db_bulk_loop now uuid xs m
            (rs @ [\<lparr>bs_macAddress = toLowerCase mac, bs_status = ''skipped'',
                     bs_detail = ''Already exists''\<rparr>]) a (s + 1) = Some (m', rs', a', s')"
      by (simp add: Let_def)
    from Cons.IH [OF this] show ?thesis
      by (simp add: oe)
  next
    case False
    let ?e = "\<lparr>db_description = or_else (item_description x) ''Bulk added device'',
               db_accessType = Some (or_else (item_accessType x) ''trial''),
               db_addedAt = now, db_updatedAt = None, db_lastSeen = None,
               db_accessCount = Some 0, db_lastDevice = None, db_id = uuid a\<rparr>"
    from False have len: "length (AList.update (toLowerCase mac) ?e m) = Suc (length m)"
      by (rule update_absent_length)
    from False Cons.prems mac
    have "db_bulk_loop now uuid xs (AList.update (toLowerCase mac) ?e m)
            (rs @ [\<lparr>bs_macAddress = toLowerCase mac, bs_status = ''added'',
                     bs_detail = or_else (item_accessType x) ''trial''\<rparr>]) (a + 1) s
          = Some (m', rs', a', s')"
      by (simp add: Let_def)
    from Cons.IH [OF this] show ?thesis
      by (simp add: oe len)
  qed
qed

lemma db_bulk_loop_same_address:
  assumes "toLowerCase m2 = toLowerCase m1"
    and "\<not> has m (toLowerCase m1)"
  shows "db_bulk_loop now uuid
           [\<lparr>item_mac = Some m1, item_description = d1, item_accessType = a1\<rparr>,
            \<lparr>item_mac = Some m2, item_description = d2, item_accessType = a2\<rparr>] m [] 0 0 =
     Some (AList.update (toLowerCase m1)
             \<lparr>db_description = or_else d1 ''Bulk added device'',
              db_accessType = Some (or_else a1 ''trial''),
              db_addedAt = now, db_updatedAt = None, db_lastSeen = None,
              db_accessCount = Some 0, db_lastDevice = None, db_id = uuid 0\<rparr> m,
           [\<lparr>bs_macAddress = toLowerCase m1, bs_status = ''added'',
             bs_detail = or_else a1 ''trial''\<rparr>,
            \<lparr>bs_macAddress = toLowerCase m1, bs_status = ''skipped'',
             bs_detail = ''Already exists''\<rparr>],
           1, 1)"
  using assms by (simp add: Let_def has_update)

lemma bulkAddMACs_Some:
  assumes "db_bulk_loop now uuid mds (db_macAddresses (readDatabase now fs)) [] 0 0
             = Some (m, rs, a, s)"
  shows "fst (bulkAddMACs now uuid mds fs) =
           (if macFile_writable fs
            then \<lparr>db_success = True, db_message = Bulk_completed a s,
                  db_data = Some (DbBulk rs (length mds) a s)\<rparr>
            else \<lparr>db_success = False, db_message = Failed_to_save, db_data = None\<rparr>)"
    and "macFile (snd (bulkAddMACs now uuid mds fs)) =
           (if macFile_writable fs
            then Some ((readDatabase now fs)
                   \<lparr>db_macAddresses := m,
                    db_stats := (db_stats (readDatabase now fs))
                      \<lparr>db_lastUpdated := now, totalDevices := size_of m\<rparr>\<rparr>)
            else macFile fs)"
  using assms
  by (simp_all add: bulkAddMACs_def Let_def case_prod_beta writeDatabase_fst writeDatabase_macFile)

lemma bulkAddMACs_None:
  assumes "\<exists>md\<in>set mds. item_mac md = None"
  shows "bulkAddMACs now uuid mds fs
     = (\<lparr>db_success = False, db_message = Bulk_add_error, db_data = None\<rparr>, fs)"
proof -
  from assms have "db_bulk_loop now uuid mds (db_macAddresses (readDatabase now fs)) [] 0 0 = None"
    by (simp only: db_bulk_loop_None)
  then show ?thesis
    by (simp add: bulkAddMACs_def Let_def)
qed

text \<open>
  Claim C6, as amended. In a bulk-add batch the item after the items \<^term>\<open>xs\<close> is judged
  against the store as those items left it: it is added exactly when it has an address
  whose lower-cased form is not a key of that store. Every item gets one outcome record,
  and the store grows by the number of items added. \<^verbatim>\<open>handleBulkAdd\<close> runs one persist, on
  the store the whole batch left, when at least one item was added, and makes no call on
  the file system otherwise. A batch of two items with the same lower-cased address
  that is not yet a key adds the first, reports the second as already existing, and
  adds one entry.

  \<^verbatim>\<open>bulkAddMACs\<close> of the database class starts from the entries read from the file. Its
  loop stops with an error at the first item without an address; the method then
  answers with a bulk-add error, without records, and writes nothing. When every item
  has an address, the item after the items \<^term>\<open>xs\<close> is skipped exactly when its
  lower-cased address is a key of the entries as those items left them, and is added
  otherwise; the loop makes one record for each item, in the order of the batch and with
  the lower-cased address of the item, the numbers added and skipped add up to the
  number of items, and the entries grow by the number added. The file is then written
  exactly once, whether or not an item was added, and the records are returned when
  that write succeeds; when it fails the answer is
  \<^verbatim>\<open>Failed to save bulk changes to database\<close>, without records, and the file keeps what it
  held.
\<close>

theorem bulk_add_outcomes:
  "bulk_loop now (xs @ [md]) (macWhitelist st) [] 0 =
       (case bulk_loop now xs (macWhitelist st) [] 0 of
          (wl1, rs1, n1) \<Rightarrow> bulk_loop now [md] wl1 rs1 n1)
     \<and> item_success (last (fst (snd (bulk_loop now (xs @ [md]) (macWhitelist st) [] 0))))
         = (\<not> falsy (item_mac md)
            \<and> \<not> has (fst (bulk_loop now xs (macWhitelist st) [] 0))
                  (toLowerCase (or_else (item_mac md) [])))
     \<and> length (fst (snd (bulk_loop now mds (macWhitelist st) [] 0))) = length mds
     \<and> length (fst (bulk_loop now mds (macWhitelist st) [] 0))
         = length (macWhitelist st) + snd (snd (bulk_loop now mds (macWhitelist st) [] 0))
     \<and> (validateAdminKey env_key adminKey \<longrightarrow>
         body (fst (handleBulkAdd v env_key now (Some mds) adminKey st d))
         = Some (Bulk (fst (snd (bulk_loop now mds (macWhitelist st) [] 0))) (length mds)
                      (snd (snd (bulk_loop now mds (macWhitelist st) [] 0))))
       \<and> snd (handleBulkAdd v env_key now (Some mds) adminKey st d)
         = (if snd (snd (bulk_loop now mds (macWhitelist st) [] 0)) > 0
            then snd (persist v now (st\<lparr>macWhitelist := fst (bulk_loop now mds (macWhitelist st) [] 0)\<rparr>) d)
            else (st\<lparr>macWhitelist := fst (bulk_loop now mds (macWhitelist st) [] 0)\<rparr>, d)))
     \<and> (m1 \<noteq> [] \<and> m2 \<noteq> [] \<and> toLowerCase m2 = toLowerCase m1
          \<and> \<not> has (macWhitelist st) (toLowerCase m1) \<longrightarrow>
         bulk_loop now [\<lparr>item_mac = Some m1, item_description = d1, item_accessType = a1\<rparr>,
                        \<lparr>item_mac = Some m2, item_description = d2, item_accessType = a2\<rparr>]
           (macWhitelist st) [] 0 =
           (AList.update (toLowerCase m1)
              \<lparr>macAddress = toLowerCase m1,
               description = or_else d1 ''Bulk added'',
               accessType = (if includes_val validAccessTypes a1 then a1 else Some ''trial''),
               addedAt = now, updatedAt = None, lastSeen = None, accessCount = Some 0,
               lastDevice = None\<rparr> (macWhitelist st),
            [\<lparr>item_macAddress = toLowerCase m1, item_success = True,
              item_message = ''Added successfully''\<rparr>,
             \<lparr>item_macAddress = toLowerCase m1, item_success = False,
              item_message = ''Already exists''\<rparr>],
            1))
     \<and> (db_bulk_loop now uuid mds (db_macAddresses (readDatabase now fs)) [] 0 0
           = Some (m, rs, a, s) \<longrightarrow>
         macFile_writes (snd (bulkAddMACs now uuid mds fs))
           = macFile_writes fs @ [(readDatabase now fs)
               \<lparr>db_macAddresses := m,
                db_stats := (db_stats (readDatabase now fs))
                  \<lparr>db_lastUpdated := now, totalDevices := size_of m\<rparr>\<rparr>])
     \<and> db_bulk_loop now uuid [] (db_macAddresses (readDatabase now fs)) [] 0 0
         = Some (db_macAddresses (readDatabase now fs), [], 0, 0)
     \<and> (db_bulk_loop now uuid xs (db_macAddresses (readDatabase now fs)) [] 0 0
           = Some (mx, rx, ax, sx)
          \<and> item_mac md = Some mac \<longrightarrow>
         db_bulk_loop now uuid (xs @ [md]) (db_macAddresses (readDatabase now fs)) [] 0 0 =
           Some (if has mx (toLowerCase mac)
                 then (mx, rx @ [\<lparr>bs_macAddress = toLowerCase mac, bs_status = ''skipped'',
                                   bs_detail = ''Already exists''\<rparr>], ax, sx + 1)
                 else (AList.update (toLowerCase mac)
                         \<lparr>db_description = or_else (item_description md) ''Bulk added device'',
                          db_accessType = Some (or_else (item_accessType md) ''trial''),
                          db_addedAt = now, db_updatedAt = None, db_lastSeen = None,
                          db_accessCount = Some 0, db_lastDevice = None, db_id = uuid ax\<rparr> mx,
                       rx @ [\<lparr>bs_macAddress = toLowerCase mac, bs_status = ''added'',
                              bs_detail = or_else (item_accessType md) ''trial''\<rparr>],
                       ax + 1, sx)))
     \<and> (db_bulk_loop now uuid mds (db_macAddresses (readDatabase now fs)) [] 0 0
           = Some (m, rs, a, s) \<longrightarrow>
         length rs = length mds
         \<and> a + s = length mds
         \<and> length m = length (db_macAddresses (readDatabase now fs)) + a
         \<and> map bs_macAddress rs = map (\<lambda>md. toLowerCase (or_else (item_mac md) [])) mds
         \<and> fst (bulkAddMACs now uuid mds fs) =
             (if macFile_writable fs
              then \<lparr>db_success = True, db_message = Bulk_completed a s,
                    db_data = Some (DbBulk rs (length mds) a s)\<rparr>
              else \<lparr>db_success = False, db_message = Failed_to_save, db_data = None\<rparr>)
         \<and> macFile (snd (bulkAddMACs now uuid mds fs)) =
             (if macFile_writable fs
              then Some ((readDatabase now fs)
                     \<lparr>db_macAddresses := m,
                      db_stats := (db_stats (readDatabase now fs))
                        \<lparr>db_lastUpdated := now, totalDevices := size_of m\<rparr>\<rparr>)
              else macFile fs))
     \<and> ((db_bulk_loop now uuid mds (db_macAddresses (readDatabase now fs)) [] 0 0 = None)
         = (\<exists>md\<in>set mds. item_mac md = None))
     \<and> ((\<exists>md\<in>set mds. item_mac md = None) \<longrightarrow>
         bulkAddMACs now uuid mds fs
           = (\<lparr>db_success = False, db_message = Bulk_add_error, db_data = None\<rparr>, fs))
     \<and> (toLowerCase m2 = toLowerCase m1
          \<and> \<not> has (db_macAddresses (readDatabase now fs)) (toLowerCase m1) \<longrightarrow>
         db_bulk_loop now uuid
           [\<lparr>item_mac = Some m1, item_description = d1, item_accessType = a1\<rparr>,
            \<lparr>item_mac = Some m2, item_description = d2, item_accessType = a2\<rparr>]
           (db_macAddresses (readDatabase now fs)) [] 0 0 =
           Some (AList.update (toLowerCase m1)
                   \<lparr>db_description = or_else d1 ''Bulk added device'',
                    db_accessType = Some (or_else a1 ''trial''),
                    db_addedAt = now, db_updatedAt = None, db_lastSeen = None,
                    db_accessCount = Some 0, db_lastDevice = None, db_id = uuid 0\<rparr>
                   (db_macAddresses (readDatabase now fs)),
                 [\<lparr>bs_macAddress = toLowerCase m1, bs_status = ''added'',
                   bs_detail = or_else a1 ''trial''\<rparr>,
                  \<lparr>bs_macAddress = toLowerCase m1, bs_status = ''skipped'',
                   bs_detail = ''Already exists''\<rparr>],
                 1, 1))
     \<and> (\<not> (\<exists>md\<in>set mds. item_mac md = None) \<longrightarrow>
         (\<exists>rs' a' s'.
            length rs' = length mds
            \<and> a' + s' = length mds
            \<and> map bs_macAddress rs' = map (\<lambda>md. toLowerCase (or_else (item_mac md) [])) mds
            \<and> fst (bulkAddMACs now uuid mds fs) =
                (if macFile_writable fs
                 then \<lparr>db_success = True, db_message = Bulk_completed a' s',
                       db_data = Some (DbBulk rs' (length mds) a' s')\<rparr>
                 else \<lparr>db_success = False, db_message = Failed_to_save, db_data = None\<rparr>))
         \<and> length (macFile_writes (snd (bulkAddMACs now uuid mds fs)))
             = Suc (length (macFile_writes fs)))"
proof -
  have 1: "bulk_loop now (xs @ [md]) (macWhitelist st) [] 0 =
       (case bulk_loop now xs (macWhitelist st) [] 0 of
          (wl1, rs1, n1) \<Rightarrow> bulk_loop now [md] wl1 rs1 n1)"
    by (rule bulk_loop_append)
  have 2: "item_success (last (fst (snd (bulk_loop now (xs @ [md]) (macWhitelist st) [] 0))))
         = (\<not> falsy (item_mac md)
            \<and> \<not> has (fst (bulk_loop now xs (macWhitelist st) [] 0))
                  (toLowerCase (or_else (item_mac md) [])))"
    using bulk_loop_last by blast
  have 3: "length (fst (snd (bulk_loop now mds (macWhitelist st) [] 0))) = length mds"
    by (simp add: bulk_loop_results_length)
  have 4: "length (fst (bulk_loop now mds (macWhitelist st) [] 0))
         = length (macWhitelist st) + snd (snd (bulk_loop now mds (macWhitelist st) [] 0))"
    using bulk_loop_store_length [of now mds "macWhitelist st" "[]" 0] by simp
  have 5: "validateAdminKey env_key adminKey \<longrightarrow>
         body (fst (handleBulkAdd v env_key now (Some mds) adminKey st d))
         = Some (Bulk (fst (snd (bulk_loop now mds (macWhitelist st) [] 0))) (length mds)
                      (snd (snd (bulk_loop now mds (macWhitelist st) [] 0))))
       \<and> snd (handleBulkAdd v env_key now (Some mds) adminKey st d)
         = (if snd (snd (bulk_loop now mds (macWhitelist st) [] 0)) > 0
            then snd (persist v now (st\<lparr>macWhitelist := fst (bulk_loop now mds (macWhitelist st) [] 0)\<rparr>) d)
            else (st\<lparr>macWhitelist := fst (bulk_loop now mds (macWhitelist st) [] 0)\<rparr>, d))"
  proof
    assume k: "validateAdminKey env_key adminKey"
    have b: "body (fst (handleBulkAdd v env_key now (Some mds) adminKey st d))
         = Some (Bulk (fst (snd (bulk_loop now mds (macWhitelist st) [] 0))) (length mds)
                      (snd (snd (bulk_loop now mds (macWhitelist st) [] 0))))"
      by (simp add: handleBulkAdd_eval [OF k] Let_def)
    have p: "snd (handleBulkAdd v env_key now (Some mds) adminKey st d)
         = (if snd (snd (bulk_loop now mds (macWhitelist st) [] 0)) > 0
            then snd (persist v now (st\<lparr>macWhitelist := fst (bulk_loop now mds (macWhitelist st) [] 0)\<rparr>) d)
            else (st\<lparr>macWhitelist := fst (bulk_loop now mds (macWhitelist st) [] 0)\<rparr>, d))"
      by (simp add: handleBulkAdd_eval [OF k] Let_def)
    from b p show "body (fst (handleBulkAdd v env_key now (Some mds) adminKey st d))
         = Some (Bulk (fst (snd (bulk_loop now mds (macWhitelist st) [] 0))) (length mds)
                      (snd (snd (bulk_loop now mds (macWhitelist st) [] 0))))
       \<and> snd (handleBulkAdd v env_key now (Some mds) adminKey st d)
         = (if snd (snd (bulk_loop now mds (macWhitelist st) [] 0)) > 0
            then snd (persist v now (st\<lparr>macWhitelist := fst (bulk_loop now mds (macWhitelist st) [] 0)\<rparr>) d)
            else (st\<lparr>macWhitelist := fst (bulk_loop now mds (macWhitelist st) [] 0)\<rparr>, d))"
      by (rule conjI)
  qed
  have 6: "m1 \<noteq> [] \<and> m2 \<noteq> [] \<and> toLowerCase m2 = toLowerCase m1
          \<and> \<not> has (macWhitelist st) (toLowerCase m1) \<longrightarrow>
         bulk_loop now [\<lparr>item_mac = Some m1, item_description = d1, item_accessType = a1\<rparr>,
                        \<lparr>item_mac = Some m2, item_description = d2, item_accessType = a2\<rparr>]
           (macWhitelist st) [] 0 =
           (AList.update (toLowerCase m1)
              \<lparr>macAddress = toLowerCase m1,
               description = or_else d1 ''Bulk added'',
               accessType = (if includes_val validAccessTypes a1 then a1 else Some ''trial''),
               addedAt = now, updatedAt = None, lastSeen = None, accessCount = Some 0,
               lastDevice = None\<rparr> (macWhitelist st),
            [\<lparr>item_macAddress = toLowerCase m1, item_success = True,
              item_message = ''Added successfully''\<rparr>,
             \<lparr>item_macAddress = toLowerCase m1, item_success = False,
              item_message = ''Already exists''\<rparr>],
            1)"
    by (intro impI, elim conjE, rule bulk_loop_same_address)
  have 7: "db_bulk_loop now uuid mds (db_macAddresses (readDatabase now fs)) [] 0 0
           = Some (m, rs, a, s) \<longrightarrow>
         macFile_writes (snd (bulkAddMACs now uuid mds fs))
           = macFile_writes fs @ [(readDatabase now fs)
               \<lparr>db_macAddresses := m,
                db_stats := (db_stats (readDatabase now fs))
                  \<lparr>db_lastUpdated := now, totalDevices := size_of m\<rparr>\<rparr>]"
    by (intro impI) (rule bulkAddMACs_writes)
  have 8: "db_bulk_loop now uuid [] (db_macAddresses (readDatabase now fs)) [] 0 0
         = Some (db_macAddresses (readDatabase now fs), [], 0, 0)"
    by simp
  have 9: "db_bulk_loop now uuid xs (db_macAddresses (readDatabase now fs)) [] 0 0
           = Some (mx, rx, ax, sx)
          \<and> item_mac md = Some mac \<longrightarrow>
         db_bulk_loop now uuid (xs @ [md]) (db_macAddresses (readDatabase now fs)) [] 0 0 =
           Some (if has mx (toLowerCase mac)
                 then (mx, rx @ [\<lparr>bs_macAddress = toLowerCase mac, bs_status = ''skipped'',
                                   bs_detail = ''Already exists''\<rparr>], ax, sx + 1)
                 else (AList.update (toLowerCase mac)
                         \<lparr>db_description = or_else (item_description md) ''Bulk added device'',
                          db_accessType = Some (or_else (item_accessType md) ''trial''),
                          db_addedAt = now, db_updatedAt = None, db_lastSeen = None,
                          db_accessCount = Some 0, db_lastDevice = None, db_id = uuid ax\<rparr> mx,
                       rx @ [\<lparr>bs_macAddress = toLowerCase mac, bs_status = ''added'',
                              bs_detail = or_else (item_accessType md) ''trial''\<rparr>],
                       ax + 1, sx))"
    by (intro impI, elim conjE, rule db_bulk_loop_snoc)
  have 10: "db_bulk_loop now uuid mds (db_macAddresses (readDatabase now fs)) [] 0 0
           = Some (m, rs, a, s) \<longrightarrow>
         length rs = length mds
         \<and> a + s = length mds
         \<and> length m = length (db_macAddresses (readDatabase now fs)) + a
         \<and> map bs_macAddress rs = map (\<lambda>md. toLowerCase (or_else (item_mac md) [])) mds
         \<and> fst (bulkAddMACs now uuid mds fs) =
             (if macFile_writable fs
              then \<lparr>db_success = True, db_message = Bulk_completed a s,
                    db_data = Some (DbBulk rs (length mds) a s)\<rparr>
              else \<lparr>db_success = False, db_message = Failed_to_save, db_data = None\<rparr>)
         \<and> macFile (snd (bulkAddMACs now uuid mds fs)) =
             (if macFile_writable fs
              then Some ((readDatabase now fs)
                     \<lparr>db_macAddresses := m,
                      db_stats := (db_stats (readDatabase now fs))
                        \<lparr>db_lastUpdated := now, totalDevices := size_of m\<rparr>\<rparr>)
              else macFile fs)"
  proof
    assume h: "db_bulk_loop now uuid mds (db_macAddresses (readDatabase now fs)) [] 0 0
           = Some (m, rs, a, s)"
    from db_bulk_loop_counts [OF h]
    have c: "length rs = length mds" "a + s = length mds"
      "length m = length (db_macAddresses (readDatabase now fs)) + a"
      "map bs_macAddress rs = map (\<lambda>md. toLowerCase (or_else (item_mac md) [])) mds"
      by simp_all
    note r = bulkAddMACs_Some [OF h]
    show "length rs = length mds
         \<and> a + s = length mds
         \<and> length m = length (db_macAddresses (readDatabase now fs)) + a
         \<and> map bs_macAddress rs = map (\<lambda>md. toLowerCase (or_else (item_mac md) [])) mds
         \<and> fst (bulkAddMACs now uuid mds fs) =
             (if macFile_writable fs
              then \<lparr>db_success = True, db_message = Bulk_completed a s,
                    db_data = Some (DbBulk rs (length mds) a s)\<rparr>
              else \<lparr>db_success = False, db_message = Failed_to_save, db_data = None\<rparr>)
         \<and> macFile (snd (bulkAddMACs now uuid mds fs)) =
             (if macFile_writable fs
              then Some ((readDatabase now fs)
                     \<lparr>db_macAddresses := m,
                      db_stats := (db_stats (readDatabase now fs))
                        \<lparr>db_lastUpdated := now, totalDevices := size_of m\<rparr>\<rparr>)
              else macFile fs)"
      by (intro conjI) (rule c(1), rule c(2), rule c(3), rule c(4), rule r(1), rule r(2))
  qed
  have 11: "(db_bulk_loop now uuid mds (db_macAddresses (readDatabase now fs)) [] 0 0 = None)
         = (\<exists>md\<in>set mds. item_mac md = None)"
    by (rule db_bulk_loop_None)
  have 12: "(\<exists>md\<in>set mds. item_mac md = None) \<longrightarrow>
         bulkAddMACs now uuid mds fs
           = (\<lparr>db_success = False, db_message = Bulk_add_error, db_data = None\<rparr>, fs)"
    by (intro impI) (rule bulkAddMACs_None)
  have 13: "toLowerCase m2 = toLowerCase m1
          \<and> \<not> has (db_macAddresses (readDatabase now fs)) (toLowerCase m1) \<longrightarrow>
         db_bulk_loop now uuid
           [\<lparr>item_mac = Some m1, item_description = d1, item_accessType = a1\<rparr>,
            \<lparr>item_mac = Some m2, item_description = d2, item_accessType = a2\<rparr>]
           (db_macAddresses (readDatabase now fs)) [] 0 0 =
           Some (AList.update (toLowerCase m1)
                   \<lparr>db_description = or_else d1 ''Bulk added device'',
                    db_accessType = Some (or_else a1 ''trial''),
                    db_addedAt = now, db_updatedAt = None, db_lastSeen = None,
                    db_accessCount = Some 0, db_lastDevice = None, db_id = uuid 0\<rparr>
                   (db_macAddresses (readDatabase now fs)),
                 [\<lparr>bs_macAddress = toLowerCase m1, bs_status = ''added'',
                   bs_detail = or_else a1 ''trial''\<rparr>,
                  \<lparr>bs_macAddress = toLowerCase m1, bs_status = ''skipped'',
                   bs_detail = ''Already exists''\<rparr>],
                 1, 1)"
    by (intro impI, elim conjE, rule db_bulk_loop_same_address)
  have 14: "\<not> (\<exists>md\<in>set mds. item_mac md = None) \<longrightarrow>
         (\<exists>rs' a' s'.
            length rs' = length mds
            \<and> a' + s' = length mds
            \<and> map bs_macAddress rs' = map (\<lambda>md. toLowerCase (or_else (item_mac md) [])) mds
            \<and> fst (bulkAddMACs now uuid mds fs) =
                (if macFile_writable fs
                 then \<lparr>db_success = True, db_message = Bulk_completed a' s',
                       db_data = Some (DbBulk rs' (length mds) a' s')\<rparr>
                 else \<lparr>db_success = False, db_message = Failed_to_save, db_data = None\<rparr>))
         \<and> length (macFile_writes (snd (bulkAddMACs now uuid mds fs)))
             = Suc (length (macFile_writes fs))"
  proof
    assume "\<not> (\<exists>md\<in>set mds. item_mac md = None)"
    then have "db_bulk_loop now uuid mds (db_macAddresses (readDatabase now fs)) [] 0 0 \<noteq> None"
      by (simp add: db_bulk_loop_None)
    then obtain m' rs' a' s'
      where h: "db_bulk_loop now uuid mds (db_macAddresses (readDatabase now fs)) [] 0 0
                  = Some (m', rs', a', s')"
      by (cases "db_bulk_loop now uuid mds (db_macAddresses (readDatabase now fs)) [] 0 0") auto
    from db_bulk_loop_counts [OF h]
    have c: "length rs' = length mds" "a' + s' = length mds"
      "map bs_macAddress rs' = map (\<lambda>md. toLowerCase (or_else (item_mac md) [])) mds"
      by simp_all
    note r = bulkAddMACs_Some(1) [OF h]
    have w: "length (macFile_writes (snd (bulkAddMACs now uuid mds fs)))
             = Suc (length (macFile_writes fs))"
      by (simp add: bulkAddMACs_writes [OF h])
    from c r have e: "\<exists>rs' a' s'.
            length rs' = length mds
            \<and> a' + s' = length mds
            \<and> map bs_macAddress rs' = map (\<lambda>md. toLowerCase (or_else (item_mac md) [])) mds
            \<and> fst (bulkAddMACs now uuid mds fs) =
                (if macFile_writable fs
                 then \<lparr>db_success = True, db_message = Bulk_completed a' s',
                       db_data = Some (DbBulk rs' (length mds) a' s')\<rparr>
                 else \<lparr>db_success = False, db_message = Failed_to_save, db_data = None\<rparr>)"
      by blast
    from e w show "(\<exists>rs' a' s'.
            length rs' = length mds
            \<and> a' + s' = length mds
            \<and> map bs_macAddress rs' = map (\<lambda>md. toLowerCase (or_else (item_mac md) [])) mds
            \<and> fst (bulkAddMACs now uuid mds fs) =
                (if macFile_writable fs
                 then \<lparr>db_success = True, db_message = Bulk_completed a' s',
                       db_data = Some (DbBulk rs' (length mds) a' s')\<rparr>
                 else \<lparr>db_success = False, db_message = Failed_to_save, db_data = None\<rparr>))
         \<and> length (macFile_writes (snd (bulkAddMACs now uuid mds fs)))
             = Suc (length (macFile_writes fs))"
      by (rule conjI)
  qed
  show ?thesis
    by (intro conjI) (rule 1, rule 2, rule 3, rule 4, rule 5, rule 6, rule 7, rule 8, rule 9, rule 10, rule 11, rule 12, rule 13, rule 14)
qed

theorem bulk_add_outcomes_witness:
  "validateAdminKey None admin_key
   \<and> ''AA:BB:CC:DD:EE:FF'' \<noteq> [] \<and> ''aa:bb:cc:dd:ee:ff'' \<noteq> []
   \<and> toLowerCase ''aa:bb:cc:dd:ee:ff'' = toLowerCase ''AA:BB:CC:DD:EE:FF''
   \<and> \<not> has (macWhitelist server_state) (toLowerCase ''AA:BB:CC:DD:EE:FF'')
   \<and> fst (snd (bulk_loop 99
        [\<lparr>item_mac = Some ''AA:BB:CC:DD:EE:FF'', item_description = Some ''laptop'',
          item_accessType = Some ''trial''\<rparr>,
         \<lparr>item_mac = Some ''aa:bb:cc:dd:ee:ff'', item_description = None, item_accessType = None\<rparr>]
        (macWhitelist server_state) [] 0))
       = [\<lparr>item_macAddress = ''aa:bb:cc:dd:ee:ff'', item_success = True,
           item_message = ''Added successfully''\<rparr>,
          \<lparr>item_macAddress = ''aa:bb:cc:dd:ee:ff'', item_success = False,
           item_message = ''Already exists''\<rparr>]
   \<and> length (fst (bulk_loop 99
        [\<lparr>item_mac = Some ''AA:BB:CC:DD:EE:FF'', item_description = Some ''laptop'',
          item_accessType = Some ''trial''\<rparr>,
         \<lparr>item_mac = Some ''aa:bb:cc:dd:ee:ff'', item_description = None, item_accessType = None\<rparr>]
        (macWhitelist server_state) [] 0)) = 2
   \<and> length (macWhitelist server_state) = 1
   \<and> body (fst (handleBulkAdd Basic None 99 (Some [item_upper, item_lower]) admin_key
         server_state blank_disk))
       = Some (Bulk
           [\<lparr>item_macAddress = ''aa:bb:cc:dd:ee:ff'', item_success = True,
             item_message = ''Added successfully''\<rparr>,
            \<lparr>item_macAddress = ''aa:bb:cc:dd:ee:ff'', item_success = False,
             item_message = ''Already exists''\<rparr>] 2 1)
   \<and> db_bulk_loop 99 fixed_uuid [item_upper] (db_macAddresses (readDatabase 99 fresh_db)) [] 0 0
       = Some ([(''aa:bb:cc:dd:ee:ff'',
                 \<lparr>db_description = ''laptop'', db_accessType = Some ''trial'', db_addedAt = 99,
                  db_updatedAt = None, db_lastSeen = None, db_accessCount = Some 0,
                  db_lastDevice = None, db_id = ''id-1''\<rparr>)],
               [\<lparr>bs_macAddress = ''aa:bb:cc:dd:ee:ff'', bs_status = ''added'',
                 bs_detail = ''trial''\<rparr>], 1, 0)
   \<and> item_mac item_lower = Some ''aa:bb:cc:dd:ee:ff''
   \<and> db_bulk_loop 99 fixed_uuid ([item_upper] @ [item_lower])
         (db_macAddresses (readDatabase 99 fresh_db)) [] 0 0
       = Some ([(''aa:bb:cc:dd:ee:ff'',
                 \<lparr>db_description = ''laptop'', db_accessType = Some ''trial'', db_addedAt = 99,
                  db_updatedAt = None, db_lastSeen = None, db_accessCount = Some 0,
                  db_lastDevice = None, db_id = ''id-1''\<rparr>)],
               [\<lparr>bs_macAddress = ''aa:bb:cc:dd:ee:ff'', bs_status = ''added'',
                 bs_detail = ''trial''\<rparr>,
                \<lparr>bs_macAddress = ''aa:bb:cc:dd:ee:ff'', bs_status = ''skipped'',
                 bs_detail = ''Already exists''\<rparr>], 1, 1)
   \<and> fst (bulkAddMACs 99 fixed_uuid [item_upper, item_lower] fresh_db)
       = \<lparr>db_success = True, db_message = Bulk_completed 1 1,
          db_data = Some (DbBulk
            [\<lparr>bs_macAddress = ''aa:bb:cc:dd:ee:ff'', bs_status = ''added'',
              bs_detail = ''trial''\<rparr>,
             \<lparr>bs_macAddress = ''aa:bb:cc:dd:ee:ff'', bs_status = ''skipped'',
              bs_detail = ''Already exists''\<rparr>] 2 1 1)\<rparr>
   \<and> map_option (\<lambda>dat. map fst (db_macAddresses dat))
         (macFile (snd (bulkAddMACs 99 fixed_uuid [item_upper, item_lower] fresh_db)))
       = Some [''aa:bb:cc:dd:ee:ff'']
   \<and> \<not> (\<exists>md\<in>set [item_upper, item_lower]. item_mac md = None)
   \<and> length (macFile_writes (snd (bulkAddMACs 99 fixed_uuid [item_upper, item_lower] fresh_db)))
       = 1
   \<and> \<not> has (db_macAddresses (readDatabase 99 fresh_db)) (toLowerCase ''AA:BB:CC:DD:EE:FF'')
   \<and> db_bulk_loop 99 fixed_uuid
         [\<lparr>item_mac = Some ''AA:BB:CC:DD:EE:FF'', item_description = Some ''laptop'',
           item_accessType = Some ''trial''\<rparr>,
          \<lparr>item_mac = Some ''aa:bb:cc:dd:ee:ff'', item_description = None,
           item_accessType = None\<rparr>]
         (db_macAddresses (readDatabase 99 fresh_db)) [] 0 0
       = Some ([(''aa:bb:cc:dd:ee:ff'',
                 \<lparr>db_description = ''laptop'', db_accessType = Some ''trial'', db_addedAt = 99,
                  db_updatedAt = None, db_lastSeen = None, db_accessCount = Some 0,
                  db_lastDevice = None, db_id = ''id-1''\<rparr>)],
               [\<lparr>bs_macAddress = ''aa:bb:cc:dd:ee:ff'', bs_status = ''added'',
                 bs_detail = ''trial''\<rparr>,
                \<lparr>bs_macAddress = ''aa:bb:cc:dd:ee:ff'', bs_status = ''skipped'',
                 bs_detail = ''Already exists''\<rparr>], 1, 1)
   \<and> (\<exists>md\<in>set [item_upper, \<lparr>item_mac = None, item_description = None,
                              item_accessType = None\<rparr>]. item_mac md = None)
   \<and> bulkAddMACs 99 fixed_uuid
         [item_upper, \<lparr>item_mac = None, item_description = None, item_accessType = None\<rparr>]
         fresh_db
       = (\<lparr>db_success = False, db_message = Bulk_add_error, db_data = None\<rparr>, fresh_db)"
proof -
  let ?E = "\<lparr>db_description = ''laptop'', db_accessType = Some ''trial'', db_addedAt = 99,
             db_updatedAt = None, db_lastSeen = None, db_accessCount = Some 0,
             db_lastDevice = None, db_id = ''id-1''\<rparr>"
  let ?M = "[(''aa:bb:cc:dd:ee:ff'', ?E)]"
  let ?added = "\<lparr>bs_macAddress = ''aa:bb:cc:dd:ee:ff'', bs_status = ''added'',
                 bs_detail = ''trial''\<rparr>"
  let ?skipped = "\<lparr>bs_macAddress = ''aa:bb:cc:dd:ee:ff'', bs_status = ''skipped'',
                   bs_detail = ''Already exists''\<rparr>"
  let ?none = "\<lparr>item_mac = None, item_description = None, item_accessType = None\<rparr>"
  have n: "''AA:BB:CC:DD:EE:FF'' \<noteq> []" "''aa:bb:cc:dd:ee:ff'' \<noteq> []"
    by simp_all
  have l: "toLowerCase ''aa:bb:cc:dd:ee:ff'' = toLowerCase ''AA:BB:CC:DD:EE:FF''"
    by (simp add: lower_samples)
  have a: "\<not> has (macWhitelist server_state) (toLowerCase ''AA:BB:CC:DD:EE:FF'')"
    by (simp add: lower_samples has_def server_state_def empty_state_def)
  have s1: "length (macWhitelist server_state) = 1"
    by (simp add: server_state_def empty_state_def)
  have e0: "db_macAddresses (readDatabase 99 fresh_db) = []"
    by (simp add: readDatabase_def fresh_db_def)
  have hx: "db_bulk_loop 99 fixed_uuid [item_upper] (db_macAddresses (readDatabase 99 fresh_db))
              [] 0 0 = Some (?M, [?added], 1, 0)"
    by (simp add: e0 item_upper_def has_def lower_samples Let_def or_else_def fixed_uuid_def)
  have hm: "item_mac item_lower = Some ''aa:bb:cc:dd:ee:ff''"
    by (simp add: item_lower_def)
  have hs: "db_bulk_loop 99 fixed_uuid [item_upper, item_lower]
              (db_macAddresses (readDatabase 99 fresh_db)) [] 0 0
            = Some (?M, [?added, ?skipped], 1, 1)"
    by (simp add: e0 item_upper_def item_lower_def has_def lower_samples Let_def or_else_def
        fixed_uuid_def)
  have ad: "\<not> has (db_macAddresses (readDatabase 99 fresh_db)) (toLowerCase ''AA:BB:CC:DD:EE:FF'')"
    by (simp add: e0 has_def)
  have ex: "\<exists>md\<in>set [item_upper, ?none]. item_mac md = None"
    by simp
  note t = bulk_add_outcomes [of 99 "[item_upper]" item_lower server_state
      "[item_upper, item_lower]"
      None admin_key Basic blank_disk "''AA:BB:CC:DD:EE:FF''" "''aa:bb:cc:dd:ee:ff''" "Some ''laptop''" "Some ''trial''"
      None None fixed_uuid fresh_db ?M "[?added, ?skipped]" 1 1 ?M "[?added]" 1 0
      "''aa:bb:cc:dd:ee:ff''"]
  from t n l a have r: "bulk_loop 99
        [\<lparr>item_mac = Some ''AA:BB:CC:DD:EE:FF'', item_description = Some ''laptop'',
          item_accessType = Some ''trial''\<rparr>,
         \<lparr>item_mac = Some ''aa:bb:cc:dd:ee:ff'', item_description = None, item_accessType = None\<rparr>]
        (macWhitelist server_state) [] 0 =
           (AList.update (toLowerCase ''AA:BB:CC:DD:EE:FF'')
              \<lparr>macAddress = toLowerCase ''AA:BB:CC:DD:EE:FF'',
               description = or_else (Some ''laptop'') ''Bulk added'',
               accessType = (if includes_val validAccessTypes (Some ''trial'') then Some ''trial''
                             else Some ''trial''),
               addedAt = 99, updatedAt = None, lastSeen = None, accessCount = Some 0,
               lastDevice = None\<rparr> (macWhitelist server_state),
            [\<lparr>item_macAddress = toLowerCase ''AA:BB:CC:DD:EE:FF'', item_success = True,
              item_message = ''Added successfully''\<rparr>,
             \<lparr>item_macAddress = toLowerCase ''AA:BB:CC:DD:EE:FF'', item_success = False,
              item_message = ''Already exists''\<rparr>],
            1)"
    by blast
  have p1: "fst (snd (bulk_loop 99
        [\<lparr>item_mac = Some ''AA:BB:CC:DD:EE:FF'', item_description = Some ''laptop'',
          item_accessType = Some ''trial''\<rparr>,
         \<lparr>item_mac = Some ''aa:bb:cc:dd:ee:ff'', item_description = None, item_accessType = None\<rparr>]
        (macWhitelist server_state) [] 0))
       = [\<lparr>item_macAddress = ''aa:bb:cc:dd:ee:ff'', item_success = True,
           item_message = ''Added successfully''\<rparr>,
          \<lparr>item_macAddress = ''aa:bb:cc:dd:ee:ff'', item_success = False,
           item_message = ''Already exists''\<rparr>]"
    unfolding r by (simp add: lower_samples)
  have p2: "length (fst (bulk_loop 99
        [\<lparr>item_mac = Some ''AA:BB:CC:DD:EE:FF'', item_description = Some ''laptop'',
          item_accessType = Some ''trial''\<rparr>,
         \<lparr>item_mac = Some ''aa:bb:cc:dd:ee:ff'', item_description = None, item_accessType = None\<rparr>]
        (macWhitelist server_state) [] 0)) = 2"
    unfolding r by (simp add: lower_samples server_state_def empty_state_def)
  from t hx hm
  have "db_bulk_loop 99 fixed_uuid ([item_upper] @ [item_lower])
          (db_macAddresses (readDatabase 99 fresh_db)) [] 0 0
        = Some (if has ?M (toLowerCase ''aa:bb:cc:dd:ee:ff'')
                then (?M, [?added] @ [\<lparr>bs_macAddress = toLowerCase ''aa:bb:cc:dd:ee:ff'',
                                         bs_status = ''skipped'',
                                         bs_detail = ''Already exists''\<rparr>], 1, 0 + 1)
                else (AList.update (toLowerCase ''aa:bb:cc:dd:ee:ff'')
                        \<lparr>db_description = or_else (item_description item_lower) ''Bulk added device'',
                         db_accessType = Some (or_else (item_accessType item_lower) ''trial''),
                         db_addedAt = 99, db_updatedAt = None, db_lastSeen = None,
                         db_accessCount = Some 0, db_lastDevice = None, db_id = fixed_uuid 1\<rparr> ?M,
                      [?added] @ [\<lparr>bs_macAddress = toLowerCase ''aa:bb:cc:dd:ee:ff'',
                                    bs_status = ''added'',
                                    bs_detail = or_else (item_accessType item_lower) ''trial''\<rparr>],
                      1 + 1, 0))"
    by blast
  then have p3: "db_bulk_loop 99 fixed_uuid ([item_upper] @ [item_lower])
          (db_macAddresses (readDatabase 99 fresh_db)) [] 0 0
        = Some (?M, [?added, ?skipped], 1, 1)"
    by (simp add: has_def lower_samples)
  from t hs
  have "fst (bulkAddMACs 99 fixed_uuid [item_upper, item_lower] fresh_db) =
          (if macFile_writable fresh_db
           then \<lparr>db_success = True, db_message = Bulk_completed 1 1,
                 db_data = Some (DbBulk [?added, ?skipped] (length [item_upper, item_lower]) 1 1)\<rparr>
           else \<lparr>db_success = False, db_message = Failed_to_save, db_data = None\<rparr>)"
    by blast
  then have p4: "fst (bulkAddMACs 99 fixed_uuid [item_upper, item_lower] fresh_db)
       = \<lparr>db_success = True, db_message = Bulk_completed 1 1,
          db_data = Some (DbBulk [?added, ?skipped] 2 1 1)\<rparr>"
    by (simp add: fresh_db_def)
  from t hs
  have "macFile (snd (bulkAddMACs 99 fixed_uuid [item_upper, item_lower] fresh_db)) =
          (if macFile_writable fresh_db
           then Some ((readDatabase 99 fresh_db)
                  \<lparr>db_macAddresses := ?M,
                   db_stats := (db_stats (readDatabase 99 fresh_db))
                     \<lparr>db_lastUpdated := 99, totalDevices := size_of ?M\<rparr>\<rparr>)
           else macFile fresh_db)"
    by blast
  then have p5: "map_option (\<lambda>dat. map fst (db_macAddresses dat))
         (macFile (snd (bulkAddMACs 99 fixed_uuid [item_upper, item_lower] fresh_db)))
       = Some [''aa:bb:cc:dd:ee:ff'']"
    by (simp add: fresh_db_def)
  from t l ad
  have "db_bulk_loop 99 fixed_uuid
         [\<lparr>item_mac = Some ''AA:BB:CC:DD:EE:FF'', item_description = Some ''laptop'',
           item_accessType = Some ''trial''\<rparr>,
          \<lparr>item_mac = Some ''aa:bb:cc:dd:ee:ff'', item_description = None,
           item_accessType = None\<rparr>]
         (db_macAddresses (readDatabase 99 fresh_db)) [] 0 0
       = Some (AList.update (toLowerCase ''AA:BB:CC:DD:EE:FF'')
                 \<lparr>db_description = or_else (Some ''laptop'') ''Bulk added device'',
                  db_accessType = Some (or_else (Some ''trial'') ''trial''),
                  db_addedAt = 99, db_updatedAt = None, db_lastSeen = None,
                  db_accessCount = Some 0, db_lastDevice = None, db_id = fixed_uuid 0\<rparr>
                 (db_macAddresses (readDatabase 99 fresh_db)),
               [\<lparr>bs_macAddress = toLowerCase ''AA:BB:CC:DD:EE:FF'', bs_status = ''added'',
                 bs_detail = or_else (Some ''trial'') ''trial''\<rparr>,
                \<lparr>bs_macAddress = toLowerCase ''AA:BB:CC:DD:EE:FF'', bs_status = ''skipped'',
                 bs_detail = ''Already exists''\<rparr>],
               1, 1)"
    by blast
  then have p7: "db_bulk_loop 99 fixed_uuid
         [\<lparr>item_mac = Some ''AA:BB:CC:DD:EE:FF'', item_description = Some ''laptop'',
           item_accessType = Some ''trial''\<rparr>,
          \<lparr>item_mac = Some ''aa:bb:cc:dd:ee:ff'', item_description = None,
           item_accessType = None\<rparr>]
         (db_macAddresses (readDatabase 99 fresh_db)) [] 0 0
       = Some (?M, [?added, ?skipped], 1, 1)"
    by (simp add: e0 lower_samples or_else_def fixed_uuid_def)
  from t admin_key_valid
  have "body (fst (handleBulkAdd Basic None 99 (Some [item_upper, item_lower]) admin_key
         server_state blank_disk))
       = Some (Bulk (fst (snd (bulk_loop 99 [item_upper, item_lower] (macWhitelist server_state) [] 0)))
                (length [item_upper, item_lower])
                (snd (snd (bulk_loop 99 [item_upper, item_lower] (macWhitelist server_state) [] 0))))"
    by blast
  then have p8: "body (fst (handleBulkAdd Basic None 99 (Some [item_upper, item_lower]) admin_key
         server_state blank_disk))
       = Some (Bulk
           [\<lparr>item_macAddress = ''aa:bb:cc:dd:ee:ff'', item_success = True,
             item_message = ''Added successfully''\<rparr>,
            \<lparr>item_macAddress = ''aa:bb:cc:dd:ee:ff'', item_success = False,
             item_message = ''Already exists''\<rparr>] 2 1)"
    by (simp add: item_upper_def item_lower_def server_state_def empty_state_def has_def
        lower_samples Let_def or_else_def includes_val_def validAccessTypes_def)
  have na: "\<not> (\<exists>md\<in>set [item_upper, item_lower]. item_mac md = None)"
    by (simp add: item_upper_def item_lower_def)
  from t na
  have "length (macFile_writes (snd (bulkAddMACs 99 fixed_uuid [item_upper, item_lower] fresh_db)))
       = Suc (length (macFile_writes fresh_db))"
    by blast
  then have p9: "length (macFile_writes (snd (bulkAddMACs 99 fixed_uuid [item_upper, item_lower]
         fresh_db))) = 1"
    by (simp add: fresh_db_def)
  note t2 = bulk_add_outcomes [of 99 "[]" item_upper server_state
      "[item_upper, ?none]"
      None admin_key Basic blank_disk "''AA:BB:CC:DD:EE:FF''" "''aa:bb:cc:dd:ee:ff''" "Some ''laptop''" "Some ''trial''"
      None None fixed_uuid fresh_db "[]" "[]" 0 0 "[]" "[]" 0 0 "''x''"]
  from t2 ex
  have p6: "bulkAddMACs 99 fixed_uuid [item_upper, ?none] fresh_db
       = (\<lparr>db_success = False, db_message = Bulk_add_error, db_data = None\<rparr>, fresh_db)"
    by blast
  show ?thesis
    by (intro conjI) (rule admin_key_valid, rule n(1), rule n(2), rule l, rule a, rule p1, rule p2,
      rule s1, rule p8, rule hx, rule hm, rule p3, rule p4, rule p5, rule na, rule p9, rule ad,
      rule p7, rule ex, rule p6)
qed

text \<open>
  Claim C6 as stated fails for \<^verbatim>\<open>bulkAddMACs\<close>: a batch whose only item is already in the
  database adds nothing and still writes the file once; and when the file cannot be
  written, the answer holds no outcome record.
\<close>

theorem bulk_add_writes_without_addition_counterexample:
  "db_message (fst (bulkAddMACs 99 fixed_uuid [item_upper] laptop_db)) = Bulk_completed 0 1
   \<and> macFile_writes laptop_db = []
   \<and> length (macFile_writes (snd (bulkAddMACs 99 fixed_uuid [item_upper] laptop_db))) = 1
   \<and> fst (bulkAddMACs 99 fixed_uuid [item_upper] (laptop_db\<lparr>macFile_writable := False\<rparr>))
       = \<lparr>db_success = False, db_message = Failed_to_save, db_data = None\<rparr>"
  by (simp add: bulkAddMACs_def readDatabase_def laptop_db_def item_upper_def writeDatabase_def
      has_def lower_samples Let_def)

end
